theory Spec2Isabelle
  imports Complex_Main "HOL-Library.AList"
begin

section \<open>JavaScript values as the handlers see them\<close>

text \<open>
  Both servers of the repository (\<^verbatim>\<open>server.js\<close> with the route \<^verbatim>\<open>POST /chat\<close>, and the
  page-serving server with the route \<^verbatim>\<open>POST /api/chat\<close>) read parsed JSON: the request body
  left by \<^verbatim>\<open>express.json\<close> and the upstream body returned by \<^verbatim>\<open>r.json()\<close>. A parsed value is
  a \<open>json\<close>; a JavaScript expression that may also be \<^verbatim>\<open>undefined\<close> is a \<open>json option\<close>
  with \<open>None\<close> for \<^verbatim>\<open>undefined\<close>. Objects are association lists read with \<open>map_of\<close>.
\<close>

datatype json =
    JNull
  | JBool bool
  | JNum rat
  | JStr string
  | JArr "json list"
  | JObj "(string \<times> json) list"

text \<open>Truthiness, as used by \<^verbatim>\<open>||\<close> and \<^verbatim>\<open>!\<close>.\<close>

fun truthy :: "json option \<Rightarrow> bool" where
  "truthy None = False"
| "truthy (Some JNull) = False"
| "truthy (Some (JBool b)) = b"
| "truthy (Some (JNum n)) = (n \<noteq> 0)"
| "truthy (Some (JStr s)) = (s \<noteq> [])"
| "truthy (Some (JArr xs)) = True"
| "truthy (Some (JObj kvs)) = True"

text \<open>\<^verbatim>\<open>a || b\<close> where \<open>b\<close> is a value.\<close>

definition js_or :: "json option \<Rightarrow> json \<Rightarrow> json" where
  "js_or a b = (case a of Some v \<Rightarrow> if truthy a then v else b | None \<Rightarrow> b)"

text \<open>\<^verbatim>\<open>Array.isArray(x)\<close>.\<close>

fun isArray :: "json option \<Rightarrow> bool" where
  "isArray (Some (JArr xs)) = True"
| "isArray _ = False"

text \<open>
  Reading a named property of a value that is neither \<^verbatim>\<open>null\<close> nor \<^verbatim>\<open>undefined\<close>. The names
  the handlers read (\<^verbatim>\<open>messages\<close>, \<^verbatim>\<open>model\<close>, \<^verbatim>\<open>temperature\<close>, \<^verbatim>\<open>max_tokens\<close>,
  \<^verbatim>\<open>error\<close>, \<^verbatim>\<open>message\<close>, \<^verbatim>\<open>choices\<close>, \<^verbatim>\<open>content\<close>) are own properties of objects only:
  arrays, strings, numbers and booleans give \<^verbatim>\<open>undefined\<close> for them.
\<close>

fun member :: "json \<Rightarrow> string \<Rightarrow> json option" where
  "member (JObj kvs) k = map_of kvs k"
| "member _ k = None"

datatype js_exception = TypeError

text \<open>\<^verbatim>\<open>v.k\<close>: throws on \<^verbatim>\<open>null\<close>.\<close>

fun get_prop :: "json \<Rightarrow> string \<Rightarrow> js_exception + json option" where
  "get_prop JNull k = Inl TypeError"
| "get_prop v k = Inr (member v k)"

text \<open>\<^verbatim>\<open>v?.k\<close>: \<^verbatim>\<open>undefined\<close> on \<^verbatim>\<open>null\<close> and \<^verbatim>\<open>undefined\<close>.\<close>

fun opt_prop :: "json option \<Rightarrow> string \<Rightarrow> json option" where
  "opt_prop None k = None"
| "opt_prop (Some JNull) k = None"
| "opt_prop (Some v) k = member v k"

text \<open>
  \<^verbatim>\<open>v?.[0]\<close>: the first element of an array, the first code unit of a string, the property
  \<^verbatim>\<open>"0"\<close> of an object.
\<close>

fun opt_index0 :: "json option \<Rightarrow> json option" where
  "opt_index0 None = None"
| "opt_index0 (Some JNull) = None"
| "opt_index0 (Some (JArr [])) = None"
| "opt_index0 (Some (JArr (x # xs))) = Some x"
| "opt_index0 (Some (JStr [])) = None"
| "opt_index0 (Some (JStr (c # cs))) = Some (JStr [c])"
| "opt_index0 (Some (JObj kvs)) = map_of kvs ''0''"
| "opt_index0 (Some (JBool b)) = None"
| "opt_index0 (Some (JNum n)) = None"

text \<open>\<^verbatim>\<open>const { k = d } = b\<close>: the default applies when the property is \<^verbatim>\<open>undefined\<close>.\<close>

definition with_default :: "json option \<Rightarrow> json \<Rightarrow> json" where
  "with_default a d = (case a of None \<Rightarrow> d | Some v \<Rightarrow> v)"

text \<open>\<^verbatim>\<open>req.body || {}\<close>.\<close>

definition body_or_empty :: "json option \<Rightarrow> json" where
  "body_or_empty b = js_or b (JObj [])"

text \<open>\<^verbatim>\<open>s || d\<close> on a string that may be \<^verbatim>\<open>undefined\<close>, and \<^verbatim>\<open>!s\<close>.\<close>

fun str_or :: "string option \<Rightarrow> string \<Rightarrow> string" where
  "str_or None d = d"
| "str_or (Some s) d = (if s = [] then d else s)"

fun str_falsy :: "string option \<Rightarrow> bool" where
  "str_falsy None = True"
| "str_falsy (Some s) = (s = [])"

section \<open>Requests, responses, environment, upstream\<close>

text \<open>
  A request carries what the handlers read from it: the method and path used for routing,
  the \<^verbatim>\<open>Origin\<close> and \<^verbatim>\<open>X-Client-Token\<close> headers (header lookup ignores case, so the two
  spellings of the source read the same field), the body as \<^verbatim>\<open>express.json\<close> left it
  (\<open>None\<close> when it left \<^verbatim>\<open>req.body\<close> undefined), and the network address. A request whose
  body \<^verbatim>\<open>express.json\<close> refuses never reaches a handler and is not a \<open>request\<close> here.
\<close>

record request =
  req_method :: string
  req_path :: string
  req_origin :: "string option"
  req_client_token :: "string option"
  req_body :: "json option"
  req_ip :: string

datatype payload = Empty | Json json | Sent string

record response =
  res_status :: nat
  res_headers :: "(string \<times> string) list"
  res_type :: "string option"
  res_body :: payload

definition new_response :: response where
  "new_response = \<lparr>res_status = 200, res_headers = [], res_type = None, res_body = Empty\<rparr>"

definition header :: "string \<Rightarrow> string \<Rightarrow> response \<Rightarrow> response" where
  "header k v res = res\<lparr>res_headers := AList.update k v (res_headers res)\<rparr>"

definition status :: "nat \<Rightarrow> response \<Rightarrow> response" where
  "status n res = res\<lparr>res_status := n\<rparr>"

definition json_send :: "json \<Rightarrow> response \<Rightarrow> response" where
  "json_send v res = res\<lparr>res_type := Some ''application/json'', res_body := Json v\<rparr>"

definition type_send :: "string \<Rightarrow> string \<Rightarrow> response \<Rightarrow> response" where
  "type_send t s res = res\<lparr>res_type := Some t, res_body := Sent s\<rparr>"

text \<open>The process environment: a variable is a string or unset.\<close>

record env =
  env_CLIENT_TOKEN :: "string option"
  env_OPENAI_API_KEY :: "string option"

text \<open>
  The outbound call. \<open>fetch\<close> is a parameter of the handlers: it maps the request sent to
  what came back, either a rejected promise (network failure) or a response with its status
  and the result of \<^verbatim>\<open>r.json()\<close> (\<open>None\<close> when the body is not JSON and the promise rejects).
  Every handler returns, beside the response, the list of outbound requests it issued.
  What the handlers write to the console is left out.
\<close>

record up_request =
  up_url :: string
  up_authorization :: string
  up_body :: json

datatype up_result = FetchRejects | UpResponse nat "json option"

type_synonym fetch = "up_request \<Rightarrow> up_result"

definition ok :: "nat \<Rightarrow> bool" where
  "ok st = (200 \<le> st \<and> st \<le> 299)"

definition completion_request :: "string \<Rightarrow> json \<Rightarrow> json \<Rightarrow> json \<Rightarrow> json \<Rightarrow> up_request" where
  "completion_request key model messages temperature max_tokens =
     \<lparr>up_url = ''https://api.openai.com/v1/chat/completions'',
      up_authorization = ''Bearer '' @ key,
      up_body = JObj [(''model'', model), (''messages'', messages),
                      (''temperature'', temperature), (''max_tokens'', max_tokens)]\<rparr>"

definition error_body :: "json \<Rightarrow> json" where
  "error_body v = JObj [(''error'', v)]"

section \<open>Route matching\<close>

text \<open>
  Modelled from the spec: section 6 names each endpoint by its method and path; which
  request paths reach a route declared with \<^verbatim>\<open>app.get\<close> or \<^verbatim>\<open>app.post\<close> is decided by the
  framework (Express, not under \<^verbatim>\<open>src/\<close>), taken with the settings neither server changes:
  the letters of the path are compared without regard to case, and one slash at the end of
  the path may be there or not. The path of a request is its path without the query
  string, as it was sent.
\<close>

definition lower :: "char \<Rightarrow> char" where
  "lower c =
     (case map_of (zip ''ABCDEFGHIJKLMNOPQRSTUVWXYZ'' ''abcdefghijklmnopqrstuvwxyz'') c of
        None \<Rightarrow> c
      | Some l \<Rightarrow> l)"

definition other_ending :: "string \<Rightarrow> string" where
  "other_ending pattern =
     (if pattern \<noteq> [] \<and> last pattern = CHR ''/'' then butlast pattern else pattern @ ''/'')"

definition route :: "string \<Rightarrow> string \<Rightarrow> bool" where
  "route pattern p =
     (map lower p = map lower pattern \<or> map lower p = map lower (other_ending pattern))"

section \<open>\<^verbatim>\<open>server.js\<close>: the API-only backend\<close>

definition ALLOW_ORIGINS :: "string list" where
  "ALLOW_ORIGINS =
     [''http://localhost:5500'',
      ''https://juliabaucher.github.io/lab2/'',
      ''https://your-custom-domain.example'']"

text \<open>
  The first middleware: it sets the cross-origin headers on the response and ends an
  \<^verbatim>\<open>OPTIONS\<close> request with 204; \<open>None\<close> stands for the call of \<^verbatim>\<open>next()\<close>. The test
  \<^verbatim>\<open>origin && ALLOW_ORIGINS.includes(origin)\<close> needs a non-empty header that is a member of
  the list.
\<close>

definition cors_headers :: "request \<Rightarrow> response \<Rightarrow> response" where
  "cors_headers req res =
     (let res1 = (case req_origin req of
                    None \<Rightarrow> res
                  | Some origin \<Rightarrow>
                      if origin \<noteq> [] \<and> origin \<in> set ALLOW_ORIGINS
                      then header ''Access-Control-Allow-Origin'' origin res
                      else res);
          res2 = header ''Vary'' ''Origin'' res1;
          res3 = header ''Access-Control-Allow-Headers'' ''Content-Type, X-Client-Token'' res2
      in header ''Access-Control-Allow-Methods'' ''OPTIONS, POST, GET'' res3)"

definition CLIENT_TOKEN :: "env \<Rightarrow> string" where
  "CLIENT_TOKEN e = str_or (env_CLIENT_TOKEN e) []"

definition health :: "response \<Rightarrow> response" where
  "health res = type_send ''text/plain'' ''OK: cv-chat-backend is running'' res"

text \<open>
  The token check of \<^verbatim>\<open>POST /chat\<close>: \<open>Some\<close> is the early return with 401, \<open>None\<close> lets the
  handler go on.
\<close>

definition token_check :: "env \<Rightarrow> request \<Rightarrow> response \<Rightarrow> response option" where
  "token_check e req res =
     (if CLIENT_TOKEN e \<noteq> [] then
        (let t = str_or (req_client_token req) (str_or (req_client_token req) [])
         in if t \<noteq> CLIENT_TOKEN e
            then Some (json_send (error_body (JStr ''Unauthorized'')) (status 401 res))
            else None)
      else None)"

text \<open>The \<^verbatim>\<open>catch\<close> block of \<^verbatim>\<open>POST /chat\<close>.\<close>

definition chat_catch :: "response \<Rightarrow> response" where
  "chat_catch res = json_send (error_body (JStr ''Server error'')) (status 500 res)"

text \<open>
  \<^verbatim>\<open>POST /chat\<close> after the token check, in three parts: the outbound request built from
  the body (with the defaults of the destructuring), the answer to what came back, and the
  handler that validates \<^verbatim>\<open>messages\<close>, reads the credential and makes the call. An
  exception (the rejected \<^verbatim>\<open>fetch\<close>, the rejected \<^verbatim>\<open>r.json()\<close>, the \<^verbatim>\<open>TypeError\<close> of
  \<^verbatim>\<open>data.error\<close> on \<^verbatim>\<open>null\<close>) ends in the \<^verbatim>\<open>catch\<close> block. On upstream success the
  parsed upstream body is sent back as it is.
\<close>

definition chat_request :: "string \<Rightarrow> json \<Rightarrow> json list \<Rightarrow> up_request" where
  "chat_request key b ms =
     (let model = with_default (member b ''model'') (JStr ''gpt-4o-mini'');
          temperature = with_default (member b ''temperature'') (JNum (3 / 10));
          max_tokens = with_default (member b ''max_tokens'') (JNum 500)
      in completion_request key model (JArr ms) temperature max_tokens)"

definition chat_answer :: "up_result \<Rightarrow> response \<Rightarrow> response" where
  "chat_answer r res =
     (case r of
        FetchRejects \<Rightarrow> chat_catch res
      | UpResponse st None \<Rightarrow> chat_catch res
      | UpResponse st (Some data) \<Rightarrow>
          if \<not> ok st then
            (case get_prop data ''error'' of
               Inl exn \<Rightarrow> chat_catch res
             | Inr err \<Rightarrow>
                 json_send
                   (error_body (js_or (opt_prop err ''message'') (JStr ''OpenAI error'')))
                   (status st res))
          else json_send data res)"

definition chat_forward :: "env \<Rightarrow> fetch \<Rightarrow> request \<Rightarrow> response \<Rightarrow> response \<times> up_request list" where
  "chat_forward e fetch req res =
     (let b = body_or_empty (req_body req)
      in case member b ''messages'' of
           Some (JArr ms) \<Rightarrow>
             (case env_OPENAI_API_KEY e of
                None \<Rightarrow>
                  (json_send (error_body (JStr ''OPENAI_API_KEY is not set on the server''))
                     (status 500 res), [])
              | Some key \<Rightarrow>
                  if key = [] then
                    (json_send (error_body (JStr ''OPENAI_API_KEY is not set on the server''))
                       (status 500 res), [])
                  else
                    (let rq = chat_request key b ms
                     in (chat_answer (fetch rq) res, [rq])))
         | _ \<Rightarrow>
             (json_send (error_body (JStr ''messages must be an array'')) (status 400 res), []))"

definition chat :: "env \<Rightarrow> fetch \<Rightarrow> request \<Rightarrow> response \<Rightarrow> response \<times> up_request list" where
  "chat e fetch req res =
     (case token_check e req res of
        Some rejected \<Rightarrow> (rejected, [])
      | None \<Rightarrow> chat_forward e fetch req res)"

text \<open>
  Modelled from the spec: the framework's answer to a request no route matches (Express, not
  under \<^verbatim>\<open>src/\<close>); section 4.1 says that unknown paths fail with a not-found status.
\<close>

definition not_found :: "response \<Rightarrow> response" where
  "not_found res = type_send ''text/html'' ''Not Found'' (status 404 res)"

text \<open>
  The application of \<^verbatim>\<open>server.js\<close>: the cross-origin middleware, then the routes in the
  order of the file, each matched by \<open>route\<close>. What the framework does with a \<^verbatim>\<open>HEAD\<close>
  request is left out: it falls to \<open>not_found\<close> here, and no property below is about it.
\<close>

definition server_js :: "env \<Rightarrow> fetch \<Rightarrow> request \<Rightarrow> response \<times> up_request list" where
  "server_js e fetch req =
     (let res = cors_headers req new_response
      in if req_method req = ''OPTIONS'' then (status 204 res, [])
         else if req_method req = ''GET'' \<and> route ''/'' (req_path req) then (health res, [])
         else if req_method req = ''POST'' \<and> route ''/chat'' (req_path req)
         then chat e fetch req res
         else (not_found res, []))"

section \<open>The page-serving server with \<^verbatim>\<open>POST /api/chat\<close>\<close>

text \<open>The \<^verbatim>\<open>catch\<close> block of \<^verbatim>\<open>POST /api/chat\<close>.\<close>

definition api_chat_catch :: "response \<Rightarrow> response" where
  "api_chat_catch res =
     json_send (error_body (JStr ''Server error. Please try again.'')) (status 500 res)"

text \<open>
  The handler of \<^verbatim>\<open>POST /api/chat\<close>, in the same three parts. On upstream success the
  reply is \<^verbatim>\<open>data.choices?.[0]?.message?.content || "No response from AI"\<close>;
  \<^verbatim>\<open>data.choices\<close> throws when \<^verbatim>\<open>data\<close> is \<^verbatim>\<open>null\<close>.
\<close>

definition api_chat_request :: "string \<Rightarrow> json \<Rightarrow> json list \<Rightarrow> up_request" where
  "api_chat_request key b ms =
     (let model = with_default (member b ''model'') (JStr ''gpt-4o-mini'');
          temperature = with_default (member b ''temperature'') (JNum (7 / 10));
          max_tokens = with_default (member b ''max_tokens'') (JNum 800)
      in completion_request key model (JArr ms) temperature max_tokens)"

definition api_chat_answer :: "up_result \<Rightarrow> response \<Rightarrow> response" where
  "api_chat_answer r res =
     (case r of
        FetchRejects \<Rightarrow> api_chat_catch res
      | UpResponse st None \<Rightarrow> api_chat_catch res
      | UpResponse st (Some data) \<Rightarrow>
          if \<not> ok st then
            (case get_prop data ''error'' of
               Inl exn \<Rightarrow> api_chat_catch res
             | Inr err \<Rightarrow>
                 json_send
                   (error_body (js_or (opt_prop err ''message'') (JStr ''OpenAI API error'')))
                   (status st res))
          else
            (case get_prop data ''choices'' of
               Inl exn \<Rightarrow> api_chat_catch res
             | Inr choices \<Rightarrow>
                 (let reply = js_or (opt_prop (opt_prop (opt_index0 choices) ''message'') ''content'')
                                    (JStr ''No response from AI'')
                  in json_send (JObj [(''message'', reply)]) res)))"

definition api_chat :: "env \<Rightarrow> fetch \<Rightarrow> request \<Rightarrow> response \<Rightarrow> response \<times> up_request list" where
  "api_chat e fetch req res =
     (let b = body_or_empty (req_body req)
      in case member b ''messages'' of
           Some (JArr ms) \<Rightarrow>
             (case env_OPENAI_API_KEY e of
                None \<Rightarrow>
                  (json_send (error_body (JStr ''OPENAI_API_KEY is not set on the server''))
                     (status 500 res), [])
              | Some key \<Rightarrow>
                  if key = [] then
                    (json_send (error_body (JStr ''OPENAI_API_KEY is not set on the server''))
                       (status 500 res), [])
                  else
                    (let rq = api_chat_request key b ms
                     in (api_chat_answer (fetch rq) res, [rq])))
         | _ \<Rightarrow>
             (json_send (error_body (JStr ''messages must be an array'')) (status 400 res), []))"

subsection \<open>The quota\<close>

definition windowMs :: nat where
  "windowMs = 24 * 60 * 60 * 1000"

definition max_requests :: nat where
  "max_requests = 50"

definition limit_message :: json where
  "limit_message = error_body (JStr ''Too many requests, please try again tomorrow'')"

record quota =
  hits :: nat
  resetTime :: nat

type_synonym quota_store = "string \<Rightarrow> quota option"

text \<open>
  Modelled from the spec: the in-memory store of the limiter (the package
  express-rate-limit, not under \<^verbatim>\<open>src/\<close>). Section 3: a per-client counter of requests made
  within a fixed window, keyed by client network identity, created lazily on first request
  from a key, reset when its window expires; section 4.2: the window is wall-clock time and
  expiry is checked lazily on the next access. Time is in milliseconds.
\<close>

definition current_quota :: "quota_store \<Rightarrow> nat \<Rightarrow> string \<Rightarrow> quota" where
  "current_quota store now key =
     (case store key of
        None \<Rightarrow> \<lparr>hits = 0, resetTime = now + windowMs\<rparr>
      | Some q \<Rightarrow> if now < resetTime q then q else \<lparr>hits = 0, resetTime = now + windowMs\<rparr>)"

text \<open>
  Modelled from the spec: the middleware that \<^verbatim>\<open>rateLimit({windowMs, max, message})\<close> returns
  (express-rate-limit, not under \<^verbatim>\<open>src/\<close>). Section 4.2: look up and increment the
  counter of the calling client; if the counter has reached the configured ceiling within
  the current window, fail with a rate-limit status and a fixed message, without contacting
  the upstream. Every request that arrives is counted, and it is refused when its own count
  exceeds the ceiling; \<open>None\<close> stands for the call of \<^verbatim>\<open>next()\<close>.
\<close>

definition chatLimiter ::
  "quota_store \<Rightarrow> nat \<Rightarrow> request \<Rightarrow> response \<Rightarrow> response option \<times> quota_store" where
  "chatLimiter store now req res =
     (let q = current_quota store now (req_ip req);
          q' = q\<lparr>hits := hits q + 1\<rparr>;
          store' = store(req_ip req \<mapsto> q')
      in (if max_requests < hits q'
          then Some (json_send limit_message (status 429 res))
          else None, store'))"

subsection \<open>Static files\<close>

text \<open>
  The files of the repository, \<^verbatim>\<open>index.html\<close> among them, are not under \<^verbatim>\<open>src/\<close>: the disk
  is a parameter, a map from a file's path to its text; \<open>dirname\<close> is the directory of the
  script (\<^verbatim>\<open>__dirname\<close>) and the working directory is \<^verbatim>\<open>.\<close>.
\<close>

record disk =
  files :: "string \<Rightarrow> string option"
  dirname :: string

text \<open>
  Modelled from the spec: the content type that the framework gives a file by its extension
  (Express, not under \<^verbatim>\<open>src/\<close>); section 4.1 asks for the appropriate content type of the
  HTML document, and only that extension is told apart.
\<close>

definition mime :: "string \<Rightarrow> string" where
  "mime p = (if drop (length p - 5) p = ''.html'' then ''text/html''
             else ''application/octet-stream'')"

text \<open>
  Modelled from the spec: the middleware \<^verbatim>\<open>express.static(".")\<close> (Express, not under
  \<^verbatim>\<open>src/\<close>). Section 4.1: on a GET to the root path, return the fixed HTML document with a
  success status and appropriate content type; on requests for other known static paths,
  return the corresponding file. A path that ends in a slash stands for the \<^verbatim>\<open>index.html\<close> of
  that directory; \<open>None\<close> stands for the call of \<^verbatim>\<open>next()\<close> when there is no such file.
\<close>

definition static_path :: "string \<Rightarrow> string" where
  "static_path p = (if p \<noteq> [] \<and> last p = CHR ''/'' then ''.'' @ p @ ''index.html'' else ''.'' @ p)"

definition express_static :: "disk \<Rightarrow> request \<Rightarrow> response \<Rightarrow> response option" where
  "express_static d req res =
     (if req_method req = ''GET'' then
        (case files d (static_path (req_path req)) of
           Some doc \<Rightarrow> Some (type_send (mime (static_path (req_path req))) doc res)
         | None \<Rightarrow> None)
      else None)"

text \<open>
  Modelled from the spec: \<^verbatim>\<open>res.sendFile\<close> (Express, not under \<^verbatim>\<open>src/\<close>). Section 4.1: return
  the document with a success status and appropriate content type; unknown paths fail with a
  not-found status.
\<close>

definition sendFile :: "disk \<Rightarrow> string \<Rightarrow> response \<Rightarrow> response" where
  "sendFile d p res =
     (case files d p of
        Some doc \<Rightarrow> type_send (mime p) doc res
      | None \<Rightarrow> not_found res)"

subsection \<open>The application\<close>

text \<open>
  The state of the server is the quota store; a request arrives at a time \<open>now\<close>. The
  static middleware comes first, then the routes in the order of the file, each matched
  by \<open>route\<close>; \<^verbatim>\<open>POST /api/chat\<close> runs the limiter, then the handler. What the framework
  does with a \<^verbatim>\<open>HEAD\<close> or \<^verbatim>\<open>OPTIONS\<close> request that no middleware of the file answers is left
  out: it falls to \<open>not_found\<close> here, the limiter does not see it, and no property below is
  about it.
\<close>

definition api_chat_route ::
  "env \<Rightarrow> fetch \<Rightarrow> quota_store \<Rightarrow> nat \<Rightarrow> request \<Rightarrow> response
     \<Rightarrow> (response \<times> up_request list) \<times> quota_store" where
  "api_chat_route e fetch store now req res =
     (case chatLimiter store now req res of
        (Some limited, store') \<Rightarrow> ((limited, []), store')
      | (None, store') \<Rightarrow> (api_chat e fetch req res, store'))"

definition page_server ::
  "env \<Rightarrow> disk \<Rightarrow> fetch \<Rightarrow> quota_store \<Rightarrow> nat \<Rightarrow> request
     \<Rightarrow> (response \<times> up_request list) \<times> quota_store" where
  "page_server e d fetch store now req =
     (case express_static d req new_response of
        Some served \<Rightarrow> ((served, []), store)
      | None \<Rightarrow>
          if req_method req = ''GET'' \<and> route ''/'' (req_path req)
          then ((sendFile d (dirname d @ ''/index.html'') new_response, []), store)
          else if req_method req = ''POST'' \<and> route ''/api/chat'' (req_path req)
          then api_chat_route e fetch store now req new_response
          else ((not_found new_response, []), store))"

text \<open>A run of the server over the requests as they arrive, oldest first.\<close>

fun serve ::
  "env \<Rightarrow> disk \<Rightarrow> fetch \<Rightarrow> quota_store \<Rightarrow> (nat \<times> request) list
     \<Rightarrow> (response \<times> up_request list) list \<times> quota_store" where
  "serve e d fetch store [] = ([], store)"
| "serve e d fetch store ((now, req) # rest) =
     (case page_server e d fetch store now req of
        (out, store') \<Rightarrow>
          (case serve e d fetch store' rest of
             (outs, store'') \<Rightarrow> (out # outs, store'')))"

section \<open>Notions used to state the properties\<close>

text \<open>
  The conversation of a request: the array held by the field \<^verbatim>\<open>messages\<close> of a body that
  is an object, if there is one.
\<close>

definition conversation :: "request \<Rightarrow> json list option" where
  "conversation req =
     (case req_body req of
        Some (JObj kvs) \<Rightarrow> (case map_of kvs ''messages'' of Some (JArr ms) \<Rightarrow> Some ms | _ \<Rightarrow> None)
      | _ \<Rightarrow> None)"

text \<open>A stubbed upstream: it gives the same answer to every outbound request.\<close>

definition stub :: "up_result \<Rightarrow> fetch" where
  "stub r rq = r"

text \<open>
  The body of the completion interface: an object whose first choice holds a message whose
  content is the given value.
\<close>

definition completion :: "json \<Rightarrow> json" where
  "completion c =
     JObj [(''id'', JStr ''chatcmpl-1''),
           (''choices'',
              JArr [JObj [(''index'', JNum 0),
                          (''message'', JObj [(''role'', JStr ''assistant''), (''content'', c)])]])]"

text \<open>The first completion's content of an upstream body, read field by field.\<close>

definition first_content :: "json \<Rightarrow> json option" where
  "first_content data =
     (case data of
        JObj kvs \<Rightarrow>
          (case map_of kvs ''choices'' of
             Some (JArr (JObj c # cs)) \<Rightarrow>
               (case map_of c ''message'' of
                  Some (JObj m) \<Rightarrow> map_of m ''content''
                | _ \<Rightarrow> None)
           | _ \<Rightarrow> None)
      | _ \<Rightarrow> None)"

text \<open>Requests and settings used as concrete inputs.\<close>

definition turn :: "string \<Rightarrow> string \<Rightarrow> json" where
  "turn role content = JObj [(''role'', JStr role), (''content'', JStr content)]"

definition two_turns :: json where
  "two_turns = JArr [turn ''system'' ''You answer questions about a CV.'', turn ''user'' ''Hello'']"

definition post_chat :: "string \<Rightarrow> string option \<Rightarrow> json option \<Rightarrow> request" where
  "post_chat p token b =
     \<lparr>req_method = ''POST'', req_path = p, req_origin = None, req_client_token = token,
      req_body = b, req_ip = ''203.0.113.7''\<rparr>"

definition get_root :: "string option \<Rightarrow> request" where
  "get_root origin =
     \<lparr>req_method = ''GET'', req_path = ''/'', req_origin = origin, req_client_token = None,
      req_body = None, req_ip = ''203.0.113.7''\<rparr>"

definition settings :: "string option \<Rightarrow> string option \<Rightarrow> env" where
  "settings token key = \<lparr>env_CLIENT_TOKEN = token, env_OPENAI_API_KEY = key\<rparr>"

definition no_quota :: quota_store where
  "no_quota = (\<lambda>k. None)"

text \<open>
  A request passes the token check when no token is set (unset or empty variable) or when
  its header carries the token; it is under quota when its key's counter in the current
  window is below the ceiling.
\<close>

definition token_accepted :: "env \<Rightarrow> request \<Rightarrow> bool" where
  "token_accepted e req =
     (case env_CLIENT_TOKEN e of
        None \<Rightarrow> True
      | Some tok \<Rightarrow> tok = [] \<or> req_client_token req = Some tok)"

definition under_quota :: "quota_store \<Rightarrow> nat \<Rightarrow> request \<Rightarrow> bool" where
  "under_quota store now req = (hits (current_quota store now (req_ip req)) < max_requests)"

text \<open>
  The requests that the limiter of \<^verbatim>\<open>POST /api/chat\<close> counts for a key: every \<^verbatim>\<open>POST\<close> of
  the key that the route matches, whatever the spelling of its path.
\<close>

definition counted :: "string \<Rightarrow> nat \<times> request \<Rightarrow> bool" where
  "counted k tr =
     (req_method (snd tr) = ''POST'' \<and> route ''/api/chat'' (req_path (snd tr)) \<and>
      req_ip (snd tr) = k)"

text \<open>What a response says apart from its headers: status, content type and body.\<close>

definition answer :: "response \<Rightarrow> nat \<times> string option \<times> payload" where
  "answer r = (res_status r, res_type r, res_body r)"

text \<open>
  The value of \<^verbatim>\<open>data.choices?.[0]?.message?.content\<close> and of \<^verbatim>\<open>data.error?.message\<close> for an
  upstream body that is not \<^verbatim>\<open>null\<close>.
\<close>

definition reply_content :: "json \<Rightarrow> json option" where
  "reply_content data = opt_prop (opt_prop (opt_index0 (member data ''choices'')) ''message'') ''content''"

definition upstream_message :: "json \<Rightarrow> json option" where
  "upstream_message data = opt_prop (member data ''error'') ''message''"

text \<open>A disk without files, and a quota store in which every key has used up its window.\<close>

definition no_files :: disk where
  "no_files = \<lparr>files = (\<lambda>p. None), dirname = ''/home/runner/app''\<rparr>"

definition used_up :: quota_store where
  "used_up = (\<lambda>k. Some \<lparr>hits = 50, resetTime = windowMs\<rparr>)"

section \<open>Lemmas about the handlers\<close>

lemma route_exact [simp]:
  "route ''/'' ''/''"
  "route ''/chat'' ''/chat''"
  "route ''/api/chat'' ''/api/chat''"
  by (simp_all add: route_def lower_def)

lemma member_body_messages:
  "member (body_or_empty (req_body req)) ''messages'' = Some (JArr ms) \<longleftrightarrow> conversation req = Some ms"
proof (cases "req_body req")
  case None
  then show ?thesis by (simp add: body_or_empty_def js_or_def conversation_def)
next
  case (Some b)
  then show ?thesis
    by (cases b)
      (auto simp add: body_or_empty_def js_or_def conversation_def split: option.splits json.splits)
qed

lemma conversation_member:
  "conversation req = Some ms \<Longrightarrow>
   member (body_or_empty (req_body req)) ''messages'' = Some (JArr ms)"
  by (simp add: member_body_messages)

lemma no_conversation:
  assumes "conversation req = None"
  shows "(case member (body_or_empty (req_body req)) ''messages'' of Some (JArr ms) \<Rightarrow> f ms | _ \<Rightarrow> g) = g"
proof -
  have "\<And>ms. member (body_or_empty (req_body req)) ''messages'' \<noteq> Some (JArr ms)"
    using assms by (simp add: member_body_messages)
  then show ?thesis by (auto split: option.splits json.splits)
qed

lemma chat_forward_invalid:
  "conversation req = None \<Longrightarrow>
   chat_forward e fetch req res =
     (json_send (error_body (JStr ''messages must be an array'')) (status 400 res), [])"
  unfolding chat_forward_def Let_def by (simp add: no_conversation)

lemma api_chat_invalid:
  "conversation req = None \<Longrightarrow>
   api_chat e fetch req res =
     (json_send (error_body (JStr ''messages must be an array'')) (status 400 res), [])"
  unfolding api_chat_def Let_def by (simp add: no_conversation)

lemma chat_forward_no_key:
  "conversation req = Some ms \<Longrightarrow> str_falsy (env_OPENAI_API_KEY e) \<Longrightarrow>
   chat_forward e fetch req res =
     (json_send (error_body (JStr ''OPENAI_API_KEY is not set on the server'')) (status 500 res), [])"
  unfolding chat_forward_def Let_def
  by (auto simp: conversation_member split: option.splits)

lemma api_chat_no_key:
  "conversation req = Some ms \<Longrightarrow> str_falsy (env_OPENAI_API_KEY e) \<Longrightarrow>
   api_chat e fetch req res =
     (json_send (error_body (JStr ''OPENAI_API_KEY is not set on the server'')) (status 500 res), [])"
  unfolding api_chat_def Let_def
  by (auto simp: conversation_member split: option.splits)

lemma chat_forward_valid:
  "conversation req = Some ms \<Longrightarrow> env_OPENAI_API_KEY e = Some key \<Longrightarrow> key \<noteq> [] \<Longrightarrow>
   chat_forward e fetch req res =
     (chat_answer (fetch (chat_request key (body_or_empty (req_body req)) ms)) res,
      [chat_request key (body_or_empty (req_body req)) ms])"
  unfolding chat_forward_def Let_def
  by (simp add: conversation_member)

lemma api_chat_valid:
  "conversation req = Some ms \<Longrightarrow> env_OPENAI_API_KEY e = Some key \<Longrightarrow> key \<noteq> [] \<Longrightarrow>
   api_chat e fetch req res =
     (api_chat_answer (fetch (api_chat_request key (body_or_empty (req_body req)) ms)) res,
      [api_chat_request key (body_or_empty (req_body req)) ms])"
  unfolding api_chat_def Let_def
  by (simp add: conversation_member)

lemma token_check_None: "token_check e req res = None \<longleftrightarrow> token_accepted e req"
  unfolding token_check_def token_accepted_def CLIENT_TOKEN_def Let_def
  by (cases "env_CLIENT_TOKEN e"; cases "req_client_token req") auto

lemma token_check_Some:
  "\<not> token_accepted e req \<Longrightarrow>
   token_check e req res = Some (json_send (error_body (JStr ''Unauthorized'')) (status 401 res))"
  unfolding token_check_def token_accepted_def CLIENT_TOKEN_def Let_def
  by (cases "env_CLIENT_TOKEN e"; cases "req_client_token req") auto

lemma server_js_chat:
  "req_method req = ''POST'' \<Longrightarrow> route ''/chat'' (req_path req) \<Longrightarrow>
   server_js e fetch req = chat e fetch req (cors_headers req new_response)"
  unfolding server_js_def Let_def by simp

lemma page_server_chat:
  "req_method req = ''POST'' \<Longrightarrow> route ''/api/chat'' (req_path req) \<Longrightarrow>
   page_server e d fetch store now req = api_chat_route e fetch store now req new_response"
  unfolding page_server_def express_static_def by simp

lemma api_chat_route_under:
  "under_quota store now req \<Longrightarrow>
   fst (api_chat_route e fetch store now req res) = api_chat e fetch req res"
  unfolding api_chat_route_def chatLimiter_def under_quota_def Let_def by simp

lemma api_chat_route_over:
  "\<not> under_quota store now req \<Longrightarrow>
   fst (api_chat_route e fetch store now req res) = (json_send limit_message (status 429 res), [])"
  unfolding api_chat_route_def chatLimiter_def under_quota_def Let_def by simp

lemma status_cors [simp]:
  "res_status (cors_headers req res) = res_status res"
  "res_type (cors_headers req res) = res_type res"
  "res_body (cors_headers req res) = res_body res"
  unfolding cors_headers_def header_def Let_def by (simp_all split: option.splits)

lemma headers_answer [simp]:
  "res_headers (json_send v res) = res_headers res"
  "res_headers (status n res) = res_headers res"
  "res_headers (type_send t x res) = res_headers res"
  by (simp_all add: json_send_def status_def type_send_def)

lemma status_answer [simp]:
  "res_status (json_send v res) = res_status res"
  "res_status (status n res) = n"
  "res_status (type_send t x res) = res_status res"
  by (simp_all add: json_send_def status_def type_send_def)

lemma body_answer [simp]:
  "res_body (status n res) = res_body res"
  "res_type (status n res) = res_type res"
  "res_body (json_send v res) = Json v"
  "res_type (json_send v res) = Some ''application/json''"
  "res_body (type_send t x res) = Sent x"
  "res_type (type_send t x res) = Some t"
  by (simp_all add: json_send_def type_send_def status_def)

lemma headers_chat_answer: "res_headers (chat_answer r res) = res_headers res"
  unfolding chat_answer_def chat_catch_def
  by (simp split: up_result.splits option.splits sum.splits)

lemma headers_chat: "res_headers (fst (chat e fetch req res)) = res_headers res"
  unfolding chat_def token_check_def chat_forward_def Let_def
  by (simp add: headers_chat_answer split: option.splits json.splits)

lemma acao_cors:
  "map_of (res_headers (cors_headers req new_response)) ''Access-Control-Allow-Origin'' =
     (case req_origin req of
        None \<Rightarrow> None
      | Some origin \<Rightarrow> if origin \<in> set ALLOW_ORIGINS then Some origin else None)"
  unfolding cors_headers_def header_def new_response_def Let_def ALLOW_ORIGINS_def
  by (auto simp: update_conv' split: option.splits)

lemma headers_server_js:
  "res_headers (fst (server_js e fetch req)) = res_headers (cors_headers req new_response)"
  unfolding server_js_def Let_def
  by (simp add: headers_chat health_def not_found_def)

lemma answer_simps [simp]:
  "answer (json_send v res) = (res_status res, Some ''application/json'', Json v)"
  "answer (type_send t x res) = (res_status res, Some t, Sent x)"
  by (simp_all add: answer_def)

lemma answer_chat_answer:
  "res_status res = res_status res' \<Longrightarrow> answer (chat_answer r res) = answer (chat_answer r res')"
  unfolding chat_answer_def chat_catch_def
  by (simp split: up_result.splits option.splits sum.splits)

lemma answer_chat:
  assumes "res_status res = res_status res'"
  shows "answer (fst (chat e fetch (req\<lparr>req_origin := x\<rparr>) res)) = answer (fst (chat e fetch req res'))
       \<and> snd (chat e fetch (req\<lparr>req_origin := x\<rparr>) res) = snd (chat e fetch req res')"
  unfolding chat_def token_check_def chat_forward_def Let_def
  using assms answer_chat_answer[OF assms]
  by (simp split: option.splits json.splits)

lemma chat_forward_token:
  "chat_forward e fetch (req\<lparr>req_client_token := h\<rparr>) res = chat_forward e fetch req res"
  unfolding chat_forward_def by simp

lemma chat_forward_calls:
  "snd (chat_forward e fetch req res) = [] \<Longrightarrow>
   res_status (fst (chat_forward e fetch req res)) = 400 \<or>
   res_status (fst (chat_forward e fetch req res)) = 500"
  unfolding chat_forward_def Let_def
  by (simp split: option.splits json.splits if_splits)

lemma answer_server_js_chat:
  "req_method req = ''POST'' \<Longrightarrow> route ''/chat'' (req_path req) \<Longrightarrow> token_accepted e req \<Longrightarrow>
   server_js e fetch req = chat_forward e fetch req (cors_headers req new_response)"
  by (simp add: server_js_chat chat_def token_check_None [THEN iffD2])

lemma page_server_under:
  "req_method req = ''POST'' \<Longrightarrow> route ''/api/chat'' (req_path req) \<Longrightarrow>
   under_quota store now req \<Longrightarrow>
   fst (page_server e d fetch store now req) = api_chat e fetch req new_response"
  by (simp add: page_server_chat api_chat_route_under)

lemma chat_no_calls:
  "conversation req = None \<Longrightarrow> snd (chat e fetch req res) = []"
  by (simp add: chat_def chat_forward_invalid split: option.splits)

lemma api_chat_route_no_calls:
  "conversation req = None \<Longrightarrow> snd (fst (api_chat_route e fetch store now req res)) = []"
  by (cases "under_quota store now req") (simp_all add: api_chat_route_under api_chat_route_over api_chat_invalid)

lemma new_response_status [simp]: "res_status new_response = 200"
  by (simp add: new_response_def)

lemma get_prop_not_null: "data \<noteq> JNull \<Longrightarrow> get_prop data k = Inr (member data k)"
  by (cases data) simp_all

lemma js_or_truthy: "truthy (Some d) \<Longrightarrow> truthy (Some (js_or a d))"
  by (cases a) (simp_all add: js_or_def)

lemma chat_answer_failure:
  "\<not> ok st \<Longrightarrow> data \<noteq> JNull \<Longrightarrow>
   chat_answer (UpResponse st (Some data)) res =
     json_send (error_body (js_or (upstream_message data) (JStr ''OpenAI error''))) (status st res)"
  by (simp add: chat_answer_def get_prop_not_null upstream_message_def)

lemma api_chat_answer_failure:
  "\<not> ok st \<Longrightarrow> data \<noteq> JNull \<Longrightarrow>
   api_chat_answer (UpResponse st (Some data)) res =
     json_send (error_body (js_or (upstream_message data) (JStr ''OpenAI API error''))) (status st res)"
  by (simp add: api_chat_answer_def get_prop_not_null upstream_message_def)

lemma chat_answer_thrown:
  "r = FetchRejects \<or> r = UpResponse st None \<or> (r = UpResponse st (Some JNull) \<and> \<not> ok st) \<Longrightarrow>
   chat_answer r res = chat_catch res"
  by (auto simp add: chat_answer_def)

lemma api_chat_answer_thrown:
  "r = FetchRejects \<or> r = UpResponse st None \<or> r = UpResponse st (Some JNull) \<Longrightarrow>
   api_chat_answer r res = api_chat_catch res"
  by (auto simp add: api_chat_answer_def)

lemma api_chat_answer_success:
  "ok st \<Longrightarrow> data \<noteq> JNull \<Longrightarrow>
   api_chat_answer (UpResponse st (Some data)) res =
     json_send (JObj [(''message'', js_or (reply_content data) (JStr ''No response from AI''))]) res"
  by (simp add: api_chat_answer_def get_prop_not_null reply_content_def)

lemma chat_answer_success:
  "ok st \<Longrightarrow> chat_answer (UpResponse st (Some data)) res = json_send data res"
  by (simp add: chat_answer_def)

lemma server_js_relayed:
  assumes "conversation req = Some ms" and "env_OPENAI_API_KEY e = Some key" and "key \<noteq> []"
    and "req_method req = ''POST''" and "route ''/chat'' (req_path req)" and "token_accepted e req"
  shows "fst (server_js e (stub r) req) = chat_answer r (cors_headers req new_response)"
    and "length (snd (server_js e (stub r) req)) = 1"
  using assms by (simp_all add: answer_server_js_chat chat_forward_valid stub_def)

lemma page_server_relayed:
  assumes "conversation req = Some ms" and "env_OPENAI_API_KEY e = Some key" and "key \<noteq> []"
    and "req_method req = ''POST''" and "route ''/api/chat'' (req_path req)"
    and "under_quota store now req"
  shows "fst (fst (page_server e d (stub r) store now req)) = api_chat_answer r new_response"
    and "length (snd (fst (page_server e d (stub r) store now req))) = 1"
  using assms by (simp_all add: page_server_under api_chat_valid stub_def)

lemma first_content_reply:
  "first_content data = Some c \<Longrightarrow> data \<noteq> JNull \<and> reply_content data = Some c"
  unfolding first_content_def reply_content_def
  by (auto split: json.splits option.splits list.splits)

lemma js_or_falsy: "\<not> truthy a \<Longrightarrow> js_or a d = d"
  by (cases a) (auto simp: js_or_def)

lemma mime_index: "mime (p @ ''/index.html'') = ''text/html''"
  by (simp add: mime_def)

lemma page_server_store:
  "snd (page_server e d fetch store now req) =
     (if req_method req = ''POST'' \<and> route ''/api/chat'' (req_path req)
      then store(req_ip req \<mapsto>
             (current_quota store now (req_ip req))
               \<lparr>hits := hits (current_quota store now (req_ip req)) + 1\<rparr>)
      else store)"
  unfolding page_server_def express_static_def api_chat_route_def chatLimiter_def Let_def
  by (simp split: option.splits)

lemma page_server_limited:
  assumes "req_method req = ''POST''" and "route ''/api/chat'' (req_path req)"
  shows "fst (page_server e d fetch store now req) =
     (if hits (current_quota store now (req_ip req)) < max_requests
      then api_chat e fetch req new_response
      else (json_send limit_message (status 429 new_response), []))"
  using assms
  by (simp add: page_server_chat api_chat_route_under api_chat_route_over under_quota_def)

lemma current_quota_open:
  "store k = Some q \<Longrightarrow> now < resetTime q \<Longrightarrow> current_quota store now k = q"
  by (simp add: current_quota_def)

lemma current_quota_fresh:
  "store k = None \<or> (\<exists>q. store k = Some q \<and> resetTime q \<le> now) \<Longrightarrow>
   current_quota store now k = \<lparr>hits = 0, resetTime = now + windowMs\<rparr>"
  by (auto simp add: current_quota_def)

lemma serve_Cons:
  "snd (serve e d fetch store ((now, req) # rest)) =
     snd (serve e d fetch (snd (page_server e d fetch store now req)) rest)"
  "fst (serve e d fetch store ((now, req) # rest)) =
     fst (page_server e d fetch store now req) #
     fst (serve e d fetch (snd (page_server e d fetch store now req)) rest)"
  by (simp_all split: prod.splits)

lemma step_counted:
  assumes "store k = Some q" and "counted k (now, req)" and "now < resetTime q"
  shows "snd (page_server e d fetch store now req) k = Some (q\<lparr>hits := hits q + 1\<rparr>)"
  using assms by (simp add: page_server_store counted_def current_quota_open)

lemma step_not_counted:
  assumes "\<not> counted k (now, req)"
  shows "snd (page_server e d fetch store now req) k = store k"
  using assms by (auto simp add: page_server_store counted_def)

lemma serve_hits:
  assumes "store k = Some q"
    and "\<forall>tr \<in> set reqs. counted k tr \<longrightarrow> fst tr < resetTime q"
  shows "snd (serve e d fetch store reqs) k =
           Some (q\<lparr>hits := hits q + length (filter (counted k) reqs)\<rparr>)"
  using assms
proof (induction reqs arbitrary: store q)
  case Nil
  then show ?case by simp
next
  case (Cons tr rest)
  obtain now req where tr: "tr = (now, req)" by (cases tr)
  show ?case
  proof (cases "counted k (now, req)")
    case True
    then have "now < resetTime q" using Cons.prems(2) tr by auto
    then have s: "snd (page_server e d fetch store now req) k = Some (q\<lparr>hits := hits q + 1\<rparr>)"
      using Cons.prems(1) True by (rule_tac step_counted)
    have "snd (serve e d fetch (snd (page_server e d fetch store now req)) rest) k =
        Some (q\<lparr>hits := hits q + 1\<rparr>\<lparr>hits := hits (q\<lparr>hits := hits q + 1\<rparr>) + length (filter (counted k) rest)\<rparr>)"
      using Cons.prems(2) s
      by (intro Cons.IH [where store = "snd (page_server e d fetch store now req)"]) simp_all
    then show ?thesis using True by (simp add: tr serve_Cons del: serve.simps)
  next
    case False
    then have s: "snd (page_server e d fetch store now req) k = Some q"
      using Cons.prems(1) by (simp add: step_not_counted)
    have "snd (serve e d fetch (snd (page_server e d fetch store now req)) rest) k =
        Some (q\<lparr>hits := hits q + length (filter (counted k) rest)\<rparr>)"
      using Cons.prems(2) s
      by (intro Cons.IH [where store = "snd (page_server e d fetch store now req)"]) simp_all
    then show ?thesis using False by (simp add: tr serve_Cons del: serve.simps)
  qed
qed

lemma serve_relayed:
  assumes "store k = Some q"
    and "\<forall>tr \<in> set reqs. counted k tr \<longrightarrow> fst tr < resetTime q"
    and "i < length reqs" and "counted k (reqs ! i)"
    and "hits q + length (filter (counted k) (take (Suc i) reqs)) \<le> max_requests"
  shows "fst (serve e d fetch store reqs) ! i = api_chat e fetch (snd (reqs ! i)) new_response"
  using assms
proof (induction reqs arbitrary: store q i)
  case Nil
  then show ?case by simp
next
  case (Cons tr rest)
  obtain now req where tr: "tr = (now, req)" by (cases tr)
  show ?case
  proof (cases i)
    case 0
    then have c: "counted k (now, req)" using Cons.prems(4) tr by simp
    then have "now < resetTime q" using Cons.prems(2) tr by auto
    then have "current_quota store now (req_ip req) = q"
      using Cons.prems(1) c by (simp add: current_quota_open counted_def)
    moreover have "hits q < max_requests"
      using Cons.prems(5) c 0 tr by simp
    ultimately show ?thesis
      using c 0 by (simp add: tr serve_Cons page_server_limited counted_def del: serve.simps)
  next
    case (Suc j)
    let ?store1 = "snd (page_server e d fetch store now req)"
    have j: "j < length rest" "counted k (rest ! j)"
      using Cons.prems(3,4) Suc by simp_all
    have later: "\<forall>tr \<in> set rest. counted k tr \<longrightarrow> fst tr < resetTime q"
      using Cons.prems(2) by simp
    show ?thesis
    proof (cases "counted k (now, req)")
      case True
      then have "now < resetTime q" using Cons.prems(2) tr by auto
      then have s: "?store1 k = Some (q\<lparr>hits := hits q + 1\<rparr>)"
        using Cons.prems(1) True by (rule_tac step_counted)
      have "fst (serve e d fetch ?store1 rest) ! j = api_chat e fetch (snd (rest ! j)) new_response"
        using later j Cons.prems(5) True Suc tr
        by (intro Cons.IH [where store = "?store1", OF s]) simp_all
      then show ?thesis by (simp add: tr serve_Cons Suc del: serve.simps)
    next
      case False
      then have s: "?store1 k = Some q"
        using Cons.prems(1) by (simp add: step_not_counted)
      have "fst (serve e d fetch ?store1 rest) ! j = api_chat e fetch (snd (rest ! j)) new_response"
        using later j Cons.prems(5) False Suc tr
        by (intro Cons.IH [where store = "?store1", OF s]) simp_all
      then show ?thesis by (simp add: tr serve_Cons Suc del: serve.simps)
    qed
  qed
qed

lemma api_chat_token:
  "api_chat (e\<lparr>env_CLIENT_TOKEN := tok'\<rparr>) fetch (req\<lparr>req_client_token := h\<rparr>) res =
   api_chat e fetch req res"
  unfolding api_chat_def Let_def
  by (simp split: option.splits json.splits)

lemma page_server_token:
  "page_server (e\<lparr>env_CLIENT_TOKEN := tok'\<rparr>) d fetch store now (req\<lparr>req_client_token := h\<rparr>) =
   page_server e d fetch store now req"
  unfolding page_server_def express_static_def api_chat_route_def chatLimiter_def Let_def
  by (auto simp add: api_chat_token split: option.splits)

section \<open>The properties\<close>

text \<open>
  C1 as stated fails: on \<^verbatim>\<open>POST /api/chat\<close> an upstream completion that is the empty string
  comes back as the placeholder, and on \<^verbatim>\<open>POST /chat\<close> the body is the whole upstream
  body, which is not the single field \<^verbatim>\<open>message\<close>.
\<close>

theorem round_trip_counterexample:
  "res_body (fst (fst (page_server (settings None (Some ''sk-1'')) no_files
        (stub (UpResponse 200 (Some (completion (JStr []))))) no_quota 0
        (post_chat ''/api/chat'' None (Some (JObj [(''messages'', two_turns)]))))))
     = Json (JObj [(''message'', JStr ''No response from AI'')])
   \<and> res_body (fst (server_js (settings None (Some ''sk-1''))
        (stub (UpResponse 200 (Some (completion (JStr ''Hello'')))))
        (post_chat ''/chat'' None (Some (JObj [(''messages'', two_turns)])))))
     = Json (completion (JStr ''Hello''))
   \<and> completion (JStr ''Hello'') \<noteq> JObj [(''message'', JStr ''Hello'')]"
  by (simp add: post_chat_def settings_def server_js_def chat_def token_check_def
      CLIENT_TOKEN_def page_server_def express_static_def api_chat_route_def chatLimiter_def
      current_quota_def no_quota_def windowMs_def max_requests_def no_files_def static_path_def
      chat_forward_def api_chat_def body_or_empty_def js_or_def two_turns_def stub_def
      chat_answer_def api_chat_answer_def chat_catch_def api_chat_catch_def ok_def completion_def)

text \<open>
  C1, as amended. For every request with an array-valued \<^verbatim>\<open>messages\<close> field, with the
  credential set, when the stubbed upstream answers with a 2xx status and a body whose first
  choice holds a message whose content is the string \<open>s\<close>: on \<^verbatim>\<open>POST /api/chat\<close>, under
  quota and for a non-empty \<open>s\<close>, the answer is 200 and its body is exactly the one field
  \<^verbatim>\<open>message\<close> holding \<open>s\<close>; on \<^verbatim>\<open>POST /chat\<close> of \<^verbatim>\<open>server.js\<close>, with the token check
  passed, the answer is 200 and its body is the upstream body unchanged.
\<close>

theorem round_trip:
  assumes "conversation req = Some ms" and "env_OPENAI_API_KEY e = Some key" and "key \<noteq> []"
    and "req_method req = ''POST''" and "ok st" and "first_content data = Some (JStr s)"
  shows "(req_path req = ''/api/chat'' \<and> under_quota store now req \<and> s \<noteq> [] \<longrightarrow>
            answer (fst (fst (page_server e d (stub (UpResponse st (Some data))) store now req))) =
              (200, Some ''application/json'', Json (JObj [(''message'', JStr s)])))
       \<and> (req_path req = ''/chat'' \<and> token_accepted e req \<longrightarrow>
            answer (fst (server_js e (stub (UpResponse st (Some data))) req)) =
              (200, Some ''application/json'', Json data))"
proof (intro conjI impI; elim conjE)
  assume h: "req_path req = ''/api/chat''" "under_quota store now req" "s \<noteq> []"
  have "data \<noteq> JNull" and "reply_content data = Some (JStr s)"
    using first_content_reply [OF assms(6)] by simp_all
  moreover have "js_or (Some (JStr s)) (JStr ''No response from AI'') = JStr s"
    using h(3) by (simp add: js_or_def)
  ultimately show "answer (fst (fst (page_server e d (stub (UpResponse st (Some data))) store now req))) =
      (200, Some ''application/json'', Json (JObj [(''message'', JStr s)]))"
    using h assms by (simp add: page_server_relayed(1) api_chat_answer_success)
next
  assume "req_path req = ''/chat''" "token_accepted e req"
  then show "answer (fst (server_js e (stub (UpResponse st (Some data))) req)) =
      (200, Some ''application/json'', Json data)"
    using assms by (simp add: server_js_relayed(1) chat_answer_success)
qed

theorem round_trip_witness:
  "answer (fst (fst (page_server (settings None (Some ''sk-1'')) no_files
       (stub (UpResponse 200 (Some (completion (JStr ''Hello''))))) no_quota 0
       (post_chat ''/api/chat'' None (Some (JObj [(''messages'', two_turns)])))))) =
     (200, Some ''application/json'', Json (JObj [(''message'', JStr ''Hello'')]))
   \<and> answer (fst (server_js (settings None (Some ''sk-1''))
       (stub (UpResponse 200 (Some (completion (JStr ''Hello'')))))
       (post_chat ''/chat'' None (Some (JObj [(''messages'', two_turns)]))))) =
     (200, Some ''application/json'', Json (completion (JStr ''Hello'')))"
  using round_trip [where req = "post_chat ''/api/chat'' None (Some (JObj [(''messages'', two_turns)]))"
      and e = "settings None (Some ''sk-1'')" and key = "''sk-1''" and st = 200
      and data = "completion (JStr ''Hello'')" and s = "''Hello''"
      and store = no_quota and now = 0 and d = no_files]
    round_trip [where req = "post_chat ''/chat'' None (Some (JObj [(''messages'', two_turns)]))"
      and e = "settings None (Some ''sk-1'')" and key = "''sk-1''" and st = 200
      and data = "completion (JStr ''Hello'')" and s = "''Hello''"]
  by (simp add: conversation_def post_chat_def settings_def token_accepted_def under_quota_def
      current_quota_def no_quota_def max_requests_def two_turns_def ok_def first_content_def
      completion_def)

text \<open>
  C2 as stated fails on \<^verbatim>\<open>server.js\<close>: \<^verbatim>\<open>POST /chat\<close> keeps no quota, and 51 requests in a
  row from one client are each relayed and answered 200.
\<close>

theorem quota_counterexample:
  "map (res_status \<circ> fst \<circ>
          server_js (settings None (Some ''sk-1'')) (stub (UpResponse 200 (Some (completion (JStr ''Hi''))))))
       (replicate 51 (post_chat ''/chat'' None (Some (JObj [(''messages'', two_turns)]))))
   = replicate 51 200"
  by (simp add: post_chat_def settings_def server_js_def chat_def token_check_def
      CLIENT_TOKEN_def chat_forward_def body_or_empty_def js_or_def two_turns_def stub_def
      chat_answer_def ok_def)

text \<open>
  C2, as amended. On \<^verbatim>\<open>POST /api/chat\<close> of the page-serving server, for every client key,
  where the requests counted for a key are all its \<^verbatim>\<open>POST\<close> requests that the route matches,
  whatever the spelling of the path: when a counted request opens a window for the key at
  time \<open>t0\<close> and the requests counted for the key from then on number 50, all before \<open>t0\<close>
  plus 24 hours (requests of other keys and requests that are not counted may come in
  between), each of the 50 is handed to the handler; a further counted request of the key
  before \<open>t0\<close> plus 24 hours is answered 429 with the fixed error and without an outbound
  call; a counted request of the key at or after \<open>t0\<close> plus 24 hours is handed to the
  handler, and the key's counter starts again at 1 in a new window.
\<close>

theorem quota_window:
  assumes "store k = None \<or> (\<exists>q. store k = Some q \<and> resetTime q \<le> t0)"
    and "counted k (t0, r0)"
    and "\<forall>tr \<in> set rest. counted k tr \<longrightarrow> fst tr < t0 + windowMs"
    and "length (filter (counted k) ((t0, r0) # rest)) = max_requests"
    and "counted k (t, r)"
  shows "(\<forall>i < length ((t0, r0) # rest). counted k (((t0, r0) # rest) ! i) \<longrightarrow>
            fst (serve e d fetch store ((t0, r0) # rest)) ! i =
              api_chat e fetch (snd (((t0, r0) # rest) ! i)) new_response)
       \<and> (t < t0 + windowMs \<longrightarrow>
            answer (fst (fst (page_server e d fetch (snd (serve e d fetch store ((t0, r0) # rest))) t r))) =
              (429, Some ''application/json'',
               Json (JObj [(''error'', JStr ''Too many requests, please try again tomorrow'')]))
            \<and> snd (fst (page_server e d fetch (snd (serve e d fetch store ((t0, r0) # rest))) t r)) = [])
       \<and> (t0 + windowMs \<le> t \<longrightarrow>
            page_server e d fetch (snd (serve e d fetch store ((t0, r0) # rest))) t r =
              (api_chat e fetch r new_response,
               (snd (serve e d fetch store ((t0, r0) # rest)))
                 (k \<mapsto> \<lparr>hits = 1, resetTime = t + windowMs\<rparr>)))"
proof -
  let ?store1 = "snd (page_server e d fetch store t0 r0)"
  let ?q1 = "\<lparr>hits = 1, resetTime = t0 + windowMs\<rparr>"
  let ?store' = "snd (serve e d fetch store ((t0, r0) # rest))"
  have r0: "req_method r0 = ''POST''" "route ''/api/chat'' (req_path r0)" "req_ip r0 = k"
    using assms(2) by (simp_all add: counted_def)
  have r: "req_method r = ''POST''" "route ''/api/chat'' (req_path r)" "req_ip r = k"
    using assms(5) by (simp_all add: counted_def)
  have fresh: "current_quota store t0 k = \<lparr>hits = 0, resetTime = t0 + windowMs\<rparr>"
    using assms(1) by (rule current_quota_fresh)
  have s1: "?store1 k = Some ?q1"
    using r0 fresh by (simp add: page_server_store)
  have window: "\<forall>tr \<in> set rest. counted k tr \<longrightarrow> fst tr < resetTime ?q1"
    using assms(3) by simp
  have n: "length (filter (counted k) rest) = 49"
    using assms(2,4) by (simp add: max_requests_def)
  have first: "fst (page_server e d fetch store t0 r0) = api_chat e fetch r0 new_response"
    using r0 fresh by (simp add: page_server_limited max_requests_def)
  have final: "?store' k = Some \<lparr>hits = 50, resetTime = t0 + windowMs\<rparr>"
    using serve_hits [where store = "?store1" and k = k and q = "?q1" and reqs = rest and e = e and d = d and fetch = fetch, OF s1 window] n
    by (simp add: serve_Cons del: serve.simps)
  have relayed: "fst (serve e d fetch store ((t0, r0) # rest)) ! i =
      api_chat e fetch (snd (((t0, r0) # rest) ! i)) new_response"
    if i: "i < length ((t0, r0) # rest)" and c: "counted k (((t0, r0) # rest) ! i)" for i
  proof (cases i)
    case 0
    then show ?thesis using first by (simp add: serve_Cons del: serve.simps)
  next
    case (Suc j)
    have "length (filter (counted k) (take (Suc j) rest)) \<le> length (filter (counted k) rest)"
      by (metis append_take_drop_id filter_append length_append le_add1)
    then have "hits ?q1 + length (filter (counted k) (take (Suc j) rest)) \<le> max_requests"
      using n by (simp add: max_requests_def)
    then have "fst (serve e d fetch ?store1 rest) ! j = api_chat e fetch (snd (rest ! j)) new_response"
      using i c Suc
      by (intro serve_relayed [where store = "?store1" and k = k and q = "?q1", OF s1 window]) simp_all
    then show ?thesis by (simp add: Suc serve_Cons del: serve.simps)
  qed
  have rejected: "fst (page_server e d fetch ?store' t r) =
      (json_send limit_message (status 429 new_response), [])" if "t < t0 + windowMs"
  proof -
    have "current_quota ?store' t k = \<lparr>hits = 50, resetTime = t0 + windowMs\<rparr>"
      using final that by (simp add: current_quota_open)
    then show ?thesis using r by (simp add: page_server_limited max_requests_def)
  qed
  have reset: "page_server e d fetch ?store' t r =
      (api_chat e fetch r new_response, ?store'(k \<mapsto> \<lparr>hits = 1, resetTime = t + windowMs\<rparr>))"
    if "t0 + windowMs \<le> t"
  proof -
    have q: "current_quota ?store' t k = \<lparr>hits = 0, resetTime = t + windowMs\<rparr>"
      using final that by (intro current_quota_fresh) simp
    then have "fst (page_server e d fetch ?store' t r) = api_chat e fetch r new_response"
      using r by (simp add: page_server_limited max_requests_def)
    moreover have "snd (page_server e d fetch ?store' t r) =
        ?store'(k \<mapsto> \<lparr>hits = 1, resetTime = t + windowMs\<rparr>)"
      using r q by (simp add: page_server_store)
    ultimately show ?thesis by (simp add: prod_eq_iff)
  qed
  have refused: "answer (fst (fst (page_server e d fetch ?store' t r))) =
      (429, Some ''application/json'',
       Json (JObj [(''error'', JStr ''Too many requests, please try again tomorrow'')]))
    \<and> snd (fst (page_server e d fetch ?store' t r)) = []" if "t < t0 + windowMs"
    using rejected [OF that] by (simp add: limit_message_def error_body_def)
  show ?thesis
    using relayed refused reset by blast
qed

theorem quota_window_witness:
  "res_status (fst (fst (page_server (settings None (Some ''sk-1'')) no_files
       (stub (UpResponse 200 (Some (completion (JStr ''Hi'')))))
       (snd (serve (settings None (Some ''sk-1'')) no_files
               (stub (UpResponse 200 (Some (completion (JStr ''Hi''))))) no_quota
               ((0, post_chat ''/api/chat'' None (Some (JObj [(''messages'', two_turns)]))) #
                replicate 49 (5, post_chat ''/API/chat/'' None (Some (JObj [(''messages'', two_turns)]))))))
       10 (post_chat ''/api/chat'' None (Some (JObj [(''messages'', two_turns)])))))) = 429
   \<and> res_status (fst (fst (page_server (settings None (Some ''sk-1'')) no_files
       (stub (UpResponse 200 (Some (completion (JStr ''Hi'')))))
       (snd (serve (settings None (Some ''sk-1'')) no_files
               (stub (UpResponse 200 (Some (completion (JStr ''Hi''))))) no_quota
               ((0, post_chat ''/api/chat'' None (Some (JObj [(''messages'', two_turns)]))) #
                replicate 49 (5, post_chat ''/API/chat/'' None (Some (JObj [(''messages'', two_turns)]))))))
       windowMs (post_chat ''/api/chat'' None (Some (JObj [(''messages'', two_turns)])))))) = 200"
proof -
  let ?R = "post_chat ''/api/chat'' None (Some (JObj [(''messages'', two_turns)]))"
  let ?R' = "post_chat ''/API/chat/'' None (Some (JObj [(''messages'', two_turns)]))"
  let ?E = "settings None (Some ''sk-1'')"
  let ?F = "stub (UpResponse 200 (Some (completion (JStr ''Hi''))))"
  let ?k = "''203.0.113.7''"
  have h1: "no_quota ?k = None \<or> (\<exists>q. no_quota ?k = Some q \<and> resetTime q \<le> 0)"
    by (simp add: no_quota_def)
  have h2: "counted ?k (0, ?R)" "counted ?k (10, ?R)" "counted ?k (windowMs, ?R)"
    by (simp_all add: counted_def post_chat_def)
  have h2': "counted ?k (5, ?R')"
    by (simp add: counted_def post_chat_def route_def lower_def other_ending_def)
  have h3: "\<forall>tr \<in> set (replicate 49 (5, ?R')). counted ?k tr \<longrightarrow> fst tr < 0 + windowMs"
    by (simp add: windowMs_def)
  have h4: "length (filter (counted ?k) ((0, ?R) # replicate 49 (5, ?R'))) = max_requests"
    using h2(1) h2' by (simp add: max_requests_def)
  have inside: "(10::nat) < 0 + windowMs" and after: "0 + windowMs \<le> windowMs"
    by (simp_all add: windowMs_def)
  have handler: "res_status (fst (api_chat ?E ?F ?R new_response)) = 200"
    by (simp add: post_chat_def settings_def api_chat_def body_or_empty_def js_or_def
        two_turns_def stub_def api_chat_answer_def ok_def completion_def)
  show ?thesis
    using quota_window [where store = no_quota and k = ?k and e = ?E and d = no_files and fetch = ?F,
        OF h1 h2(1) h3 h4 h2(2)] inside
      quota_window [where store = no_quota and k = ?k and e = ?E and d = no_files and fetch = ?F,
        OF h1 h2(1) h3 h4 h2(3)] after handler
    by (simp add: answer_def del: serve.simps)
qed

text \<open>
  C3 as stated fails: with the credential unset, a request whose body has no array-valued
  \<^verbatim>\<open>messages\<close> is answered 400 by the validation, which comes first, on both servers.
\<close>

theorem missing_key_counterexample:
  "res_status (fst (server_js (settings None None) (stub FetchRejects)
        (post_chat ''/chat'' None (Some (JObj []))))) = 400
   \<and> res_status (fst (fst (page_server (settings None None) no_files (stub FetchRejects)
        no_quota 0 (post_chat ''/api/chat'' None (Some (JObj [])))))) = 400"
  by (simp add: conversation_def post_chat_def settings_def server_js_def chat_def token_check_def
      CLIENT_TOKEN_def page_server_def express_static_def api_chat_route_def chatLimiter_def
      current_quota_def no_quota_def windowMs_def max_requests_def no_files_def static_path_def
      chat_forward_def api_chat_def body_or_empty_def js_or_def)

text \<open>
  C3, as amended. For every request with an array-valued \<^verbatim>\<open>messages\<close> field that passed the
  token check (\<^verbatim>\<open>POST /chat\<close>) or the quota (\<^verbatim>\<open>POST /api/chat\<close>): when the variable
  \<^verbatim>\<open>OPENAI_API_KEY\<close> is unset or empty, the answer is 500 with the error
  \<^verbatim>\<open>OPENAI_API_KEY is not set on the server\<close>, and no outbound call is made.
\<close>

theorem missing_key_fails:
  assumes "str_falsy (env_OPENAI_API_KEY e)" and "conversation req = Some ms"
    and "req_method req = ''POST''"
  shows "(req_path req = ''/chat'' \<longrightarrow> token_accepted e req \<longrightarrow>
            answer (fst (server_js e fetch req)) =
              (500, Some ''application/json'',
               Json (JObj [(''error'', JStr ''OPENAI_API_KEY is not set on the server'')]))
            \<and> snd (server_js e fetch req) = [])
       \<and> (req_path req = ''/api/chat'' \<longrightarrow> under_quota store now req \<longrightarrow>
            answer (fst (fst (page_server e d fetch store now req))) =
              (500, Some ''application/json'',
               Json (JObj [(''error'', JStr ''OPENAI_API_KEY is not set on the server'')]))
            \<and> snd (fst (page_server e d fetch store now req)) = [])"
  using assms
  by (simp add: answer_server_js_chat page_server_under chat_forward_no_key api_chat_no_key
      error_body_def)

theorem missing_key_fails_witness:
  "answer (fst (server_js (settings None None) (stub FetchRejects)
      (post_chat ''/chat'' None (Some (JObj [(''messages'', two_turns)]))))) =
     (500, Some ''application/json'',
      Json (JObj [(''error'', JStr ''OPENAI_API_KEY is not set on the server'')]))
   \<and> answer (fst (fst (page_server (settings None (Some [])) no_files (stub FetchRejects) no_quota 0
      (post_chat ''/api/chat'' None (Some (JObj [(''messages'', two_turns)])))))) =
     (500, Some ''application/json'',
      Json (JObj [(''error'', JStr ''OPENAI_API_KEY is not set on the server'')]))"
  using missing_key_fails [of "settings None None"
      "post_chat ''/chat'' None (Some (JObj [(''messages'', two_turns)]))" _ "stub FetchRejects"]
    missing_key_fails [of "settings None (Some [])"
      "post_chat ''/api/chat'' None (Some (JObj [(''messages'', two_turns)]))" _ "stub FetchRejects"
      no_quota 0 no_files]
  by (simp add: conversation_def post_chat_def settings_def token_accepted_def under_quota_def
      current_quota_def no_quota_def max_requests_def two_turns_def)

text \<open>
  C4 as stated fails: on \<^verbatim>\<open>POST /api/chat\<close> an upstream 200 whose body is \<^verbatim>\<open>null\<close> ends in
  the \<^verbatim>\<open>catch\<close> block with status 500, and on \<^verbatim>\<open>POST /chat\<close> an upstream 200 with the
  body \<^verbatim>\<open>{}\<close> comes back as \<^verbatim>\<open>{}\<close>, with no \<^verbatim>\<open>message\<close> and no placeholder.
\<close>

theorem placeholder_counterexample:
  "res_status (fst (fst (page_server (settings None (Some ''sk-1'')) no_files
        (stub (UpResponse 200 (Some JNull))) no_quota 0
        (post_chat ''/api/chat'' None (Some (JObj [(''messages'', two_turns)])))))) = 500
   \<and> res_body (fst (server_js (settings None (Some ''sk-1'')) (stub (UpResponse 200 (Some (JObj []))))
        (post_chat ''/chat'' None (Some (JObj [(''messages'', two_turns)]))))) = Json (JObj [])"
  by (simp add: post_chat_def settings_def server_js_def chat_def token_check_def
      CLIENT_TOKEN_def page_server_def express_static_def api_chat_route_def chatLimiter_def
      current_quota_def no_quota_def windowMs_def max_requests_def no_files_def static_path_def
      chat_forward_def api_chat_def body_or_empty_def js_or_def two_turns_def stub_def
      chat_answer_def api_chat_answer_def chat_catch_def api_chat_catch_def ok_def)

text \<open>
  C4, as amended. For every relayed request and every upstream answer with a 2xx status: on
  \<^verbatim>\<open>POST /api/chat\<close>, when the upstream body is not \<^verbatim>\<open>null\<close> and
  \<^verbatim>\<open>data.choices?.[0]?.message?.content\<close> is missing or falsy, the answer is 200 with the
  placeholder \<^verbatim>\<open>No response from AI\<close> in \<^verbatim>\<open>message\<close>; on \<^verbatim>\<open>POST /chat\<close> of \<^verbatim>\<open>server.js\<close>
  the answer is 200 with the upstream body unchanged, whatever it holds.
\<close>

theorem placeholder_substituted:
  assumes "conversation req = Some ms" and "env_OPENAI_API_KEY e = Some key" and "key \<noteq> []"
    and "req_method req = ''POST''" and "ok st"
  shows "(req_path req = ''/api/chat'' \<and> under_quota store now req \<and>
            data \<noteq> JNull \<and> \<not> truthy (reply_content data) \<longrightarrow>
            answer (fst (fst (page_server e d (stub (UpResponse st (Some data))) store now req))) =
              (200, Some ''application/json'', Json (JObj [(''message'', JStr ''No response from AI'')])))
       \<and> (req_path req = ''/chat'' \<and> token_accepted e req \<longrightarrow>
            answer (fst (server_js e (stub (UpResponse st (Some data))) req)) =
              (200, Some ''application/json'', Json data))"
proof (intro conjI impI; elim conjE)
  assume h: "req_path req = ''/api/chat''" "under_quota store now req" "data \<noteq> JNull"
    "\<not> truthy (reply_content data)"
  have "js_or (reply_content data) (JStr ''No response from AI'') = JStr ''No response from AI''"
    using h(4) by (rule js_or_falsy)
  then show "answer (fst (fst (page_server e d (stub (UpResponse st (Some data))) store now req))) =
      (200, Some ''application/json'', Json (JObj [(''message'', JStr ''No response from AI'')]))"
    using h assms by (simp add: page_server_relayed(1) api_chat_answer_success)
next
  assume "req_path req = ''/chat''" "token_accepted e req"
  then show "answer (fst (server_js e (stub (UpResponse st (Some data))) req)) =
      (200, Some ''application/json'', Json data)"
    using assms by (simp add: server_js_relayed(1) chat_answer_success)
qed

theorem placeholder_substituted_witness:
  "answer (fst (fst (page_server (settings None (Some ''sk-1'')) no_files
       (stub (UpResponse 200 (Some (JObj [(''choices'', JArr [])])))) no_quota 0
       (post_chat ''/api/chat'' None (Some (JObj [(''messages'', two_turns)])))))) =
     (200, Some ''application/json'', Json (JObj [(''message'', JStr ''No response from AI'')]))
   \<and> answer (fst (server_js (settings None (Some ''sk-1''))
       (stub (UpResponse 200 (Some (JObj [(''choices'', JArr [])]))))
       (post_chat ''/chat'' None (Some (JObj [(''messages'', two_turns)]))))) =
     (200, Some ''application/json'', Json (JObj [(''choices'', JArr [])]))"
  using placeholder_substituted [where req = "post_chat ''/api/chat'' None (Some (JObj [(''messages'', two_turns)]))"
      and e = "settings None (Some ''sk-1'')" and key = "''sk-1''" and st = 200
      and data = "JObj [(''choices'', JArr [])]" and store = no_quota and now = 0 and d = no_files]
    placeholder_substituted [where req = "post_chat ''/chat'' None (Some (JObj [(''messages'', two_turns)]))"
      and e = "settings None (Some ''sk-1'')" and key = "''sk-1''" and st = 200
      and data = "JObj [(''choices'', JArr [])]"]
  by (simp add: conversation_def post_chat_def settings_def token_accepted_def under_quota_def
      current_quota_def no_quota_def max_requests_def two_turns_def ok_def reply_content_def)

text \<open>
  C5 as stated fails: a request without \<^verbatim>\<open>messages\<close> is answered 401 by \<^verbatim>\<open>POST /chat\<close> when
  a token is configured and the header is missing, and 429 by \<^verbatim>\<open>POST /api/chat\<close> when the
  key has used up its quota; both checks come before the validation.
\<close>

theorem invalid_body_counterexample:
  "conversation (post_chat ''/chat'' None (Some (JObj []))) = None
   \<and> res_status (fst (server_js (settings (Some ''s3cret'') (Some ''sk-1'')) (stub FetchRejects)
        (post_chat ''/chat'' None (Some (JObj []))))) = 401
   \<and> conversation (post_chat ''/api/chat'' None (Some (JObj []))) = None
   \<and> res_status (fst (fst (page_server (settings None (Some ''sk-1'')) no_files (stub FetchRejects)
        used_up 1 (post_chat ''/api/chat'' None (Some (JObj [])))))) = 429"
  by (simp add: conversation_def post_chat_def settings_def server_js_def chat_def token_check_def
      CLIENT_TOKEN_def page_server_def express_static_def api_chat_route_def chatLimiter_def
      current_quota_def used_up_def windowMs_def max_requests_def no_files_def static_path_def)

text \<open>
  C5, as amended. For every request whose body has no array-valued \<^verbatim>\<open>messages\<close> field (no
  body, a body that is not an object, no such field, or a field that is not an array): no
  outbound call is made by either server, whatever the route; and when the request passed
  the token check (\<^verbatim>\<open>POST /chat\<close>) or the quota (\<^verbatim>\<open>POST /api/chat\<close>), the answer is 400
  with the error \<^verbatim>\<open>messages must be an array\<close>.
\<close>

theorem invalid_body_rejected:
  assumes "conversation req = None"
  shows "snd (server_js e fetch req) = []
       \<and> snd (fst (page_server e d fetch store now req)) = []
       \<and> (req_method req = ''POST'' \<and> req_path req = ''/chat'' \<and> token_accepted e req \<longrightarrow>
            answer (fst (server_js e fetch req)) =
              (400, Some ''application/json'',
               Json (JObj [(''error'', JStr ''messages must be an array'')])))
       \<and> (req_method req = ''POST'' \<and> req_path req = ''/api/chat'' \<and> under_quota store now req \<longrightarrow>
            answer (fst (fst (page_server e d fetch store now req))) =
              (400, Some ''application/json'',
               Json (JObj [(''error'', JStr ''messages must be an array'')])))"
proof (intro conjI impI; (elim conjE)?)
  show "snd (server_js e fetch req) = []"
    using assms by (simp add: server_js_def Let_def chat_no_calls)
next
  show "snd (fst (page_server e d fetch store now req)) = []"
    using assms
    by (simp add: page_server_def api_chat_route_no_calls split: option.splits)
next
  assume "req_method req = ''POST''" "req_path req = ''/chat''" "token_accepted e req"
  then show "answer (fst (server_js e fetch req)) =
      (400, Some ''application/json'', Json (JObj [(''error'', JStr ''messages must be an array'')]))"
    using assms by (simp add: answer_server_js_chat chat_forward_invalid error_body_def)
next
  assume "req_method req = ''POST''" "req_path req = ''/api/chat''" "under_quota store now req"
  then show "answer (fst (fst (page_server e d fetch store now req))) =
      (400, Some ''application/json'', Json (JObj [(''error'', JStr ''messages must be an array'')]))"
    using assms by (simp add: page_server_under api_chat_invalid error_body_def)
qed

theorem invalid_body_rejected_witness:
  "answer (fst (server_js (settings None None) (stub FetchRejects)
      (post_chat ''/chat'' None (Some (JObj [(''messages'', JStr ''hello'')]))))) =
     (400, Some ''application/json'', Json (JObj [(''error'', JStr ''messages must be an array'')]))
   \<and> answer (fst (fst (page_server (settings None None) no_files (stub FetchRejects) no_quota 0
      (post_chat ''/api/chat'' None (Some (JObj [(''messages'', JStr ''hello'')])))))) =
     (400, Some ''application/json'', Json (JObj [(''error'', JStr ''messages must be an array'')]))"
  using invalid_body_rejected [of "post_chat ''/chat'' None (Some (JObj [(''messages'', JStr ''hello'')]))"
      "settings None None" "stub FetchRejects"]
    invalid_body_rejected [of "post_chat ''/api/chat'' None (Some (JObj [(''messages'', JStr ''hello'')]))"
      "settings None None" "stub FetchRejects" no_files no_quota 0]
  by (simp add: conversation_def post_chat_def settings_def token_accepted_def under_quota_def
      current_quota_def no_quota_def max_requests_def)

text \<open>
  C6 as stated fails: an upstream status 502 with a body that is not JSON is answered 500,
  not 502, on both servers, since \<^verbatim>\<open>r.json()\<close> is awaited before the status is looked at.
\<close>

theorem upstream_failure_counterexample:
  "res_status (fst (server_js (settings None (Some ''sk-1'')) (stub (UpResponse 502 None))
        (post_chat ''/chat'' None (Some (JObj [(''messages'', two_turns)]))))) = 500
   \<and> res_status (fst (fst (page_server (settings None (Some ''sk-1'')) no_files
        (stub (UpResponse 502 None)) no_quota 0
        (post_chat ''/api/chat'' None (Some (JObj [(''messages'', two_turns)])))))) = 500"
  by (simp add: post_chat_def settings_def server_js_def chat_def token_check_def
      CLIENT_TOKEN_def page_server_def express_static_def api_chat_route_def chatLimiter_def
      current_quota_def no_quota_def windowMs_def max_requests_def no_files_def static_path_def
      chat_forward_def api_chat_def body_or_empty_def js_or_def two_turns_def stub_def
      chat_answer_def api_chat_answer_def chat_catch_def api_chat_catch_def)

text \<open>
  C6, as amended. For every relayed request, on both servers: when the upstream answers with
  a status that is not 2xx and a JSON body that is not \<^verbatim>\<open>null\<close>, the answer has the upstream
  status and the field \<^verbatim>\<open>error\<close> holds \<^verbatim>\<open>data.error?.message\<close> when that is truthy and a
  fixed string otherwise, a truthy value in both cases (so a non-empty string when it is a
  string); when \<^verbatim>\<open>fetch\<close> rejects or when the upstream body is not JSON, whatever the
  upstream status, the answer is 500 with the fixed error of the \<^verbatim>\<open>catch\<close> block.
\<close>

theorem upstream_failure_relayed:
  assumes "conversation req = Some ms" and "env_OPENAI_API_KEY e = Some key" and "key \<noteq> []"
    and "req_method req = ''POST''"
  shows "(req_path req = ''/chat'' \<and> token_accepted e req \<longrightarrow>
           (\<not> ok st \<and> data \<noteq> JNull \<longrightarrow>
              answer (fst (server_js e (stub (UpResponse st (Some data))) req)) =
                (st, Some ''application/json'',
                 Json (JObj [(''error'', js_or (upstream_message data) (JStr ''OpenAI error''))]))
              \<and> truthy (Some (js_or (upstream_message data) (JStr ''OpenAI error''))))
           \<and> answer (fst (server_js e (stub FetchRejects) req)) =
                (500, Some ''application/json'', Json (JObj [(''error'', JStr ''Server error'')]))
           \<and> answer (fst (server_js e (stub (UpResponse st None)) req)) =
                (500, Some ''application/json'', Json (JObj [(''error'', JStr ''Server error'')])))
       \<and> (req_path req = ''/api/chat'' \<and> under_quota store now req \<longrightarrow>
           (\<not> ok st \<and> data \<noteq> JNull \<longrightarrow>
              answer (fst (fst (page_server e d (stub (UpResponse st (Some data))) store now req))) =
                (st, Some ''application/json'',
                 Json (JObj [(''error'', js_or (upstream_message data) (JStr ''OpenAI API error''))]))
              \<and> truthy (Some (js_or (upstream_message data) (JStr ''OpenAI API error''))))
           \<and> answer (fst (fst (page_server e d (stub FetchRejects) store now req))) =
                (500, Some ''application/json'',
                 Json (JObj [(''error'', JStr ''Server error. Please try again.'')]))
           \<and> answer (fst (fst (page_server e d (stub (UpResponse st None)) store now req))) =
                (500, Some ''application/json'',
                 Json (JObj [(''error'', JStr ''Server error. Please try again.'')])))"
proof (intro conjI impI; (elim conjE)?)
  assume h: "req_path req = ''/chat''" "token_accepted e req"
  have out: "\<And>r. fst (server_js e (stub r) req) = chat_answer r (cors_headers req new_response)"
    using h assms by (simp add: server_js_relayed(1))
  {
    assume "\<not> ok st" "data \<noteq> JNull"
    then show "answer (fst (server_js e (stub (UpResponse st (Some data))) req)) =
        (st, Some ''application/json'',
         Json (JObj [(''error'', js_or (upstream_message data) (JStr ''OpenAI error''))]))"
      by (simp add: out chat_answer_failure error_body_def)
  }
  show "answer (fst (server_js e (stub FetchRejects) req)) =
      (500, Some ''application/json'', Json (JObj [(''error'', JStr ''Server error'')]))"
    by (simp add: out chat_answer_thrown chat_catch_def error_body_def)
  show "answer (fst (server_js e (stub (UpResponse st None)) req)) =
      (500, Some ''application/json'', Json (JObj [(''error'', JStr ''Server error'')]))"
    by (simp add: out chat_answer_thrown [of _ st] chat_catch_def error_body_def)
next
  assume h: "req_path req = ''/api/chat''" "under_quota store now req"
  have out: "\<And>r. fst (fst (page_server e d (stub r) store now req)) = api_chat_answer r new_response"
    using h assms by (simp add: page_server_relayed(1))
  {
    assume "\<not> ok st" "data \<noteq> JNull"
    then show "answer (fst (fst (page_server e d (stub (UpResponse st (Some data))) store now req))) =
        (st, Some ''application/json'',
         Json (JObj [(''error'', js_or (upstream_message data) (JStr ''OpenAI API error''))]))"
      by (simp add: out api_chat_answer_failure error_body_def)
  }
  show "answer (fst (fst (page_server e d (stub FetchRejects) store now req))) =
      (500, Some ''application/json'',
       Json (JObj [(''error'', JStr ''Server error. Please try again.'')]))"
    by (simp add: out api_chat_answer_thrown api_chat_catch_def error_body_def)
  show "answer (fst (fst (page_server e d (stub (UpResponse st None)) store now req))) =
      (500, Some ''application/json'',
       Json (JObj [(''error'', JStr ''Server error. Please try again.'')]))"
    by (simp add: out api_chat_answer_thrown [of _ st] api_chat_catch_def error_body_def)
qed (simp_all add: js_or_truthy)

theorem upstream_failure_relayed_witness:
  "answer (fst (server_js (settings None (Some ''sk-1''))
       (stub (UpResponse 429 (Some (JObj [(''error'', JObj [(''message'', JStr ''Rate limit reached'')])]))))
       (post_chat ''/chat'' None (Some (JObj [(''messages'', two_turns)]))))) =
     (429, Some ''application/json'', Json (JObj [(''error'', JStr ''Rate limit reached'')]))
   \<and> answer (fst (fst (page_server (settings None (Some ''sk-1'')) no_files
       (stub (UpResponse 503 (Some (JObj [])))) no_quota 0
       (post_chat ''/api/chat'' None (Some (JObj [(''messages'', two_turns)])))))) =
     (503, Some ''application/json'', Json (JObj [(''error'', JStr ''OpenAI API error'')]))
   \<and> answer (fst (fst (page_server (settings None (Some ''sk-1'')) no_files
       (stub FetchRejects) no_quota 0
       (post_chat ''/api/chat'' None (Some (JObj [(''messages'', two_turns)])))))) =
     (500, Some ''application/json'', Json (JObj [(''error'', JStr ''Server error. Please try again.'')]))"
  using upstream_failure_relayed [where req = "post_chat ''/chat'' None (Some (JObj [(''messages'', two_turns)]))"
      and e = "settings None (Some ''sk-1'')" and key = "''sk-1''" and st = 429
      and data = "JObj [(''error'', JObj [(''message'', JStr ''Rate limit reached'')])]"]
    upstream_failure_relayed [where req = "post_chat ''/api/chat'' None (Some (JObj [(''messages'', two_turns)]))"
      and e = "settings None (Some ''sk-1'')" and key = "''sk-1''" and st = 503
      and data = "JObj []" and store = no_quota and now = 0 and d = no_files]
  by (simp add: conversation_def post_chat_def settings_def token_accepted_def under_quota_def
      current_quota_def no_quota_def max_requests_def two_turns_def ok_def upstream_message_def
      js_or_def)

text \<open>
  C7 as stated fails on \<^verbatim>\<open>POST /api/chat\<close> of the page-serving server: the handler reads
  neither \<^verbatim>\<open>CLIENT_TOKEN\<close> nor \<^verbatim>\<open>X-Client-Token\<close>, so with a token set in the environment and
  no header the request is counted, relayed and answered 200.
\<close>

theorem token_gate_counterexample:
  "answer (fst (fst (page_server (settings (Some ''s3cret'') (Some ''sk-1'')) no_files
       (stub (UpResponse 200 (Some (completion (JStr ''Hi''))))) no_quota 0
       (post_chat ''/api/chat'' None (Some (JObj [(''messages'', two_turns)])))))) =
     (200, Some ''application/json'', Json (JObj [(''message'', JStr ''Hi'')]))
   \<and> length (snd (fst (page_server (settings (Some ''s3cret'') (Some ''sk-1'')) no_files
       (stub (UpResponse 200 (Some (completion (JStr ''Hi''))))) no_quota 0
       (post_chat ''/api/chat'' None (Some (JObj [(''messages'', two_turns)])))))) = 1"
  by (simp add: post_chat_def settings_def page_server_def express_static_def api_chat_route_def
      chatLimiter_def current_quota_def no_quota_def windowMs_def max_requests_def no_files_def
      static_path_def api_chat_def body_or_empty_def js_or_def two_turns_def stub_def
      api_chat_answer_def ok_def completion_def answer_def json_send_def new_response_def)

text \<open>
  C7, as amended. For every \<^verbatim>\<open>POST\<close> whose body the JSON parser accepted: on the route
  \<^verbatim>\<open>/chat\<close> of \<^verbatim>\<open>server.js\<close>, when \<^verbatim>\<open>CLIENT_TOKEN\<close> is set and not empty and the header
  \<^verbatim>\<open>X-Client-Token\<close> is missing or differs from it, the answer is 401 with the error
  \<^verbatim>\<open>Unauthorized\<close> and no outbound call is made; the page-serving server has no token check:
  its answer, its outbound calls and its quota store are the same whatever \<^verbatim>\<open>CLIENT_TOKEN\<close>
  and \<^verbatim>\<open>X-Client-Token\<close> are. No order between a token check and a quota check is stated,
  since \<^verbatim>\<open>server.js\<close> keeps no quota and the page-serving server checks no token.
\<close>

theorem token_gate_rejects:
  assumes "env_CLIENT_TOKEN e = Some tok" and "tok \<noteq> []"
    and "req_client_token req \<noteq> Some tok"
    and "req_method req = ''POST''"
  shows "(route ''/chat'' (req_path req) \<longrightarrow>
            answer (fst (server_js e fetch req)) =
              (401, Some ''application/json'', Json (JObj [(''error'', JStr ''Unauthorized'')]))
            \<and> snd (server_js e fetch req) = [])
       \<and> page_server e d fetch store now req =
           page_server (e\<lparr>env_CLIENT_TOKEN := tok'\<rparr>) d fetch store now
             (req\<lparr>req_client_token := h\<rparr>)"
proof (intro conjI impI)
  assume path: "route ''/chat'' (req_path req)"
  have "\<not> token_accepted e req"
    using assms(1-3) by (simp add: token_accepted_def)
  then have rejected: "chat e fetch req (cors_headers req new_response) =
      (json_send (error_body (JStr ''Unauthorized'')) (status 401 (cors_headers req new_response)), [])"
    by (simp add: chat_def token_check_Some)
  show "answer (fst (server_js e fetch req)) =
      (401, Some ''application/json'', Json (JObj [(''error'', JStr ''Unauthorized'')]))"
    using rejected assms(4) path by (simp add: server_js_chat error_body_def)
  show "snd (server_js e fetch req) = []"
    using rejected assms(4) path by (simp add: server_js_chat)
next
  show "page_server e d fetch store now req =
      page_server (e\<lparr>env_CLIENT_TOKEN := tok'\<rparr>) d fetch store now (req\<lparr>req_client_token := h\<rparr>)"
    by (simp add: page_server_token)
qed

theorem token_gate_rejects_witness:
  "answer (fst (server_js (settings (Some ''s3cret'') (Some ''sk-1''))
                  (stub (UpResponse 200 (Some (completion (JStr ''Hi'')))))
                  (post_chat ''/Chat/'' (Some ''guess'') (Some (JObj [(''messages'', two_turns)]))))) =
     (401, Some ''application/json'', Json (JObj [(''error'', JStr ''Unauthorized'')]))
   \<and> snd (server_js (settings (Some ''s3cret'') (Some ''sk-1''))
                  (stub (UpResponse 200 (Some (completion (JStr ''Hi'')))))
                  (post_chat ''/Chat/'' (Some ''guess'') (Some (JObj [(''messages'', two_turns)])))) = []"
proof -
  let ?e = "settings (Some ''s3cret'') (Some ''sk-1'')"
  let ?req = "post_chat ''/Chat/'' (Some ''guess'') (Some (JObj [(''messages'', two_turns)]))"
  have h: "env_CLIENT_TOKEN ?e = Some ''s3cret''" "''s3cret'' \<noteq> []"
    "req_client_token ?req \<noteq> Some ''s3cret''" "req_method ?req = ''POST''"
    by (simp_all add: settings_def post_chat_def)
  have p: "route ''/chat'' (req_path ?req)"
    by (simp add: post_chat_def route_def lower_def other_ending_def)
  show ?thesis
    using token_gate_rejects [OF h] p by simp
qed

text \<open>
  C8. For every request to \<^verbatim>\<open>server.js\<close>: when the \<^verbatim>\<open>Origin\<close> header is on the allow-list,
  the response carries \<^verbatim>\<open>Access-Control-Allow-Origin\<close> with that very origin; when the header
  is missing or not on the list, the response carries no such header; and the status, the
  content type, the body and the outbound calls of the answer do not depend on the
  \<^verbatim>\<open>Origin\<close> header, so the request is processed and answered all the same.
\<close>

theorem cors_allow_list:
  "(\<forall>origin. req_origin req = Some origin \<and> origin \<in> set ALLOW_ORIGINS \<longrightarrow>
      map_of (res_headers (fst (server_js e fetch req))) ''Access-Control-Allow-Origin'' = Some origin)
   \<and> (req_origin req \<notin> Some ` set ALLOW_ORIGINS \<longrightarrow>
      map_of (res_headers (fst (server_js e fetch req))) ''Access-Control-Allow-Origin'' = None)
   \<and> answer (fst (server_js e fetch (req\<lparr>req_origin := x\<rparr>))) = answer (fst (server_js e fetch req))
   \<and> snd (server_js e fetch (req\<lparr>req_origin := x\<rparr>)) = snd (server_js e fetch req)"
proof -
  have a: "answer (fst (server_js e fetch (req\<lparr>req_origin := x\<rparr>))) = answer (fst (server_js e fetch req))
      \<and> snd (server_js e fetch (req\<lparr>req_origin := x\<rparr>)) = snd (server_js e fetch req)"
    unfolding server_js_def Let_def
    using answer_chat[where res="cors_headers (req\<lparr>req_origin := x\<rparr>) new_response" and res'="cors_headers req new_response" and e=e and fetch=fetch and req=req and x=x]
    by (simp add: health_def not_found_def answer_def [of "status _ _"])
  show ?thesis
    using a by (auto simp: headers_server_js acao_cors split: option.splits)
qed

theorem cors_allow_list_witness:
  "map_of (res_headers (fst (server_js (settings None None) (stub FetchRejects)
      (get_root (Some ''http://localhost:5500''))))) ''Access-Control-Allow-Origin''
     = Some ''http://localhost:5500''
   \<and> map_of (res_headers (fst (server_js (settings None None) (stub FetchRejects)
      (get_root (Some ''https://juliabaucher.github.io''))))) ''Access-Control-Allow-Origin''
     = None"
  using cors_allow_list [of "get_root (Some ''http://localhost:5500'')" "settings None None" "stub FetchRejects"]
    cors_allow_list [of "get_root (Some ''https://juliabaucher.github.io'')" "settings None None" "stub FetchRejects"]
  by (simp add: get_root_def ALLOW_ORIGINS_def image_iff)

text \<open>
  C9 as stated fails on \<^verbatim>\<open>server.js\<close>: its root path is a health check that answers in
  plain text, not with the HTML document.
\<close>

theorem root_path_counterexample:
  "answer (fst (server_js (settings None None) (stub FetchRejects) (get_root None))) =
     (200, Some ''text/plain'', Sent ''OK: cv-chat-backend is running'')"
  by (simp add: server_js_def get_root_def health_def)

text \<open>
  C9, as amended. For every \<^verbatim>\<open>GET\<close> request to the root path: the page-serving server
  answers 200 with content type \<^verbatim>\<open>text/html\<close> and the text of \<^verbatim>\<open>index.html\<close>, taken from the
  working directory or else from the directory of the script, when the file is there;
  \<^verbatim>\<open>server.js\<close> answers 200 with content type \<^verbatim>\<open>text/plain\<close> and the fixed line
  \<^verbatim>\<open>OK: cv-chat-backend is running\<close>.
\<close>

theorem root_path:
  assumes "req_method req = ''GET''" and "req_path req = ''/''"
  shows "(files d ''./index.html'' = Some doc \<or>
          files d ''./index.html'' = None \<and> files d (dirname d @ ''/index.html'') = Some doc \<longrightarrow>
            page_server e d fetch store now req =
              ((\<lparr>res_status = 200, res_headers = [], res_type = Some ''text/html'',
                 res_body = Sent doc\<rparr>, []), store))
       \<and> answer (fst (server_js e fetch req)) =
            (200, Some ''text/plain'', Sent ''OK: cv-chat-backend is running'')"
proof
  show "files d ''./index.html'' = Some doc \<or>
      files d ''./index.html'' = None \<and> files d (dirname d @ ''/index.html'') = Some doc \<longrightarrow>
      page_server e d fetch store now req =
        ((\<lparr>res_status = 200, res_headers = [], res_type = Some ''text/html'',
           res_body = Sent doc\<rparr>, []), store)"
    using assms mime_index [of "''.''"] mime_index [of "dirname d"]
    by (auto simp: page_server_def express_static_def static_path_def sendFile_def type_send_def
        new_response_def)
  show "answer (fst (server_js e fetch req)) =
      (200, Some ''text/plain'', Sent ''OK: cv-chat-backend is running'')"
    using assms by (simp add: server_js_def health_def)
qed

theorem root_path_witness:
  "page_server (settings None None) \<lparr>files = [''/srv/cv/index.html'' \<mapsto> ''<!doctype html>''], dirname = ''/srv/cv''\<rparr>
     (stub FetchRejects) no_quota 0 (get_root None) =
     ((\<lparr>res_status = 200, res_headers = [], res_type = Some ''text/html'',
        res_body = Sent ''<!doctype html>''\<rparr>, []), no_quota)"
  using root_path [of "get_root None" "\<lparr>files = [''/srv/cv/index.html'' \<mapsto> ''<!doctype html>''], dirname = ''/srv/cv''\<rparr>"
      "''<!doctype html>''" "settings None None" "stub FetchRejects" no_quota 0]
  by (simp add: get_root_def)

text \<open>
  C10. When the variable \<^verbatim>\<open>CLIENT_TOKEN\<close> is unset or empty, the token check lets every
  request through whatever header \<^verbatim>\<open>X-Client-Token\<close> it carries: the handler is the rest of
  the handler, the header changes nothing, and a status 401 can only be the mirrored status
  of an outbound call that was made, never a rejection by the relay.
\<close>

theorem no_token_no_gate:
  assumes "env_CLIENT_TOKEN e = None \<or> env_CLIENT_TOKEN e = Some []"
  shows "token_check e req res = None
       \<and> chat e fetch req res = chat_forward e fetch req res
       \<and> chat e fetch (req\<lparr>req_client_token := h\<rparr>) res = chat e fetch req res
       \<and> (res_status (fst (chat e fetch req res)) = 401 \<longrightarrow> snd (chat e fetch req res) \<noteq> [])"
proof -
  have acc: "\<And>r. token_accepted e r"
    using assms by (auto simp: token_accepted_def)
  then have pass: "\<And>r. token_check e r res = None"
    by (simp add: token_check_None)
  then have fw: "\<And>r. chat e fetch r res = chat_forward e fetch r res"
    by (simp add: chat_def)
  show ?thesis
    using pass fw chat_forward_calls [of e fetch req res]
    by (auto simp: chat_forward_token)
qed

theorem no_token_no_gate_witness:
  "token_check (settings (Some []) None) (post_chat ''/chat'' (Some ''anything'') None) new_response = None
   \<and> res_status (fst (chat (settings (Some []) None) (stub FetchRejects)
        (post_chat ''/chat'' (Some ''anything'') None) new_response)) = 400"
  using no_token_no_gate [of "settings (Some []) None" "post_chat ''/chat'' (Some ''anything'') None"
      new_response "stub FetchRejects" None]
  by (simp add: settings_def post_chat_def chat_forward_def body_or_empty_def js_or_def
      new_response_def json_send_def status_def)

end
